theory Spec2Isabelle
  imports Main "HOL-Library.Sublist"
begin

section \<open>JavaScript values\<close>

text \<open>
  The three scripts (deploy, seed, teardown) and the helper \<open>utils/read-outputs\<close> are
  JavaScript. What they read from \<open>outputs.json\<close> and from the AWS CLI is whatever
  \<open>JSON.parse\<close> returns, so the values of the model are the JSON values, and
  \<open>undefined\<close> beside them. A number is kept as the text \<open>String(n)\<close> prints for
  it; a string is a \<open>string\<close> of 8-bit characters. The fields of a parsed object are
  an association list with one entry per key.
\<close>

datatype json = JNull | JBool bool | JNum string | JStr string
  | JArr "json list" | JObj "(string \<times> json) list"

datatype jsval = Undefined | J json

text \<open>Truthiness, as \<open>!x\<close>, \<open>x || y\<close> and \<open>if (x)\<close> test it.\<close>

fun truthy :: "jsval \<Rightarrow> bool" where
  "truthy Undefined = False"
| "truthy (J JNull) = False"
| "truthy (J (JBool b)) = b"
| "truthy (J (JNum n)) = (n \<noteq> ''0'')"
| "truthy (J (JStr s)) = (s \<noteq> [])"
| "truthy (J (JArr xs)) = True"
| "truthy (J (JObj fs)) = True"

text \<open>\<open>a || b\<close>: the left operand when it is truthy, else the right one.\<close>

definition or_else :: "jsval \<Rightarrow> jsval \<Rightarrow> jsval" where
  "or_else a b = (if truthy a then a else b)"

text \<open>A command-line argument or an environment variable: a string, or \<open>undefined\<close>.\<close>

definition str_val :: "string option \<Rightarrow> jsval" where
  "str_val x = (case x of None \<Rightarrow> Undefined | Some s \<Rightarrow> J (JStr s))"

text \<open>
  \<open>ToString\<close>, as a template literal \<open>`${x}`\<close> and a computed property key
  \<open>acc[x]\<close> apply it. \<open>None\<close> is the TypeError of an object that cannot be
  converted to a primitive: a parsed object with a field \<open>toString\<close> of its own
  (a JSON value is never callable, and the inherited \<open>valueOf\<close> returns the object).
  An array joins its elements with commas, \<open>null\<close> printing as the empty text.
\<close>

fun ToString :: "json \<Rightarrow> string option" and join :: "json list \<Rightarrow> string option" where
  "ToString JNull = Some ''null''"
| "ToString (JBool b) = Some (if b then ''true'' else ''false'')"
| "ToString (JNum n) = Some n"
| "ToString (JStr s) = Some s"
| "ToString (JArr xs) = join xs"
| "ToString (JObj fs) = (if map_of fs ''toString'' = None then Some ''[object Object]'' else None)"
| "join [] = Some []"
| "join (x # xs) =
     (case (if x = JNull then Some [] else ToString x) of
        None \<Rightarrow> None
      | Some a \<Rightarrow>
          (if xs = [] then Some a
           else (case join xs of None \<Rightarrow> None | Some b \<Rightarrow> Some (a @ '','' @ b))))"

definition to_text :: "jsval \<Rightarrow> string option" where
  "to_text v = (case v of Undefined \<Rightarrow> Some ''undefined'' | J j \<Rightarrow> ToString j)"

text \<open>
  \<open>x.name\<close> on a parsed value, for a name that no built-in prototype defines
  (\<open>OutputKey\<close>, \<open>OutputValue\<close>, \<open>Versions\<close>, \<open>DeleteMarkers\<close>, \<open>Key\<close>,
  \<open>VersionId\<close>): the object's own field, \<open>undefined\<close> on every other value, and
  a TypeError (\<open>None\<close>) on \<open>null\<close>.
\<close>

fun field :: "json \<Rightarrow> string \<Rightarrow> jsval option" where
  "field JNull name = None"
| "field (JObj fs) name = Some (case map_of fs name of None \<Rightarrow> Undefined | Some j \<Rightarrow> J j)"
| "field (JBool b) name = Some Undefined"
| "field (JNum n) name = Some Undefined"
| "field (JStr s) name = Some Undefined"
| "field (JArr xs) name = Some Undefined"

text \<open>\<open>String(n)\<close> for a length.\<close>

fun show_nat :: "nat \<Rightarrow> string" where
  "show_nat n =
     (if n < 10 then [''0123456789'' ! n]
      else show_nat (n div 10) @ [''0123456789'' ! (n mod 10)])"

text \<open>\<open>s.includes(sub)\<close>.\<close>

fun str_includes :: "string \<Rightarrow> string \<Rightarrow> bool" where
  "str_includes [] sub = (sub = [])"
| "str_includes (c # cs) sub = (take (length sub) (c # cs) = sub \<or> str_includes cs sub)"

definition newline :: char where "newline = CHR 0x0A"
definition backslash :: char where "backslash = CHR 0x5C"
definition dquote :: char where "dquote = CHR 0x22"
definition squote :: char where "squote = CHR 0x27"

text \<open>The lines of a multi-line template literal, joined by line feeds.\<close>

fun text_of_lines :: "string list \<Rightarrow> string" where
  "text_of_lines [] = []"
| "text_of_lines [l] = l"
| "text_of_lines (l # m # ls) = l @ [newline] @ text_of_lines (m # ls)"

section \<open>The object built by \<open>readOutputs\<close>\<close>

text \<open>
  \<open>readOutputs\<close> folds the parsed array into the object literal \<open>{}\<close> with
  \<open>acc[output.OutputKey] = output.OutputValue\<close>. The object is its own properties
  and its prototype. An assignment creates or overwrites an own property, with one
  exception of the language: while the object has no own property \<open>__proto__\<close> and
  inherits the accessor of that name from \<open>Object.prototype\<close>, assigning to
  \<open>__proto__\<close> calls the accessor, which replaces the prototype when the value is an
  object or \<open>null\<close> and does nothing otherwise.
\<close>

datatype prototype = ObjectPrototype | NullPrototype
  | ObjPrototype "(string \<times> json) list" | ArrPrototype "json list"

record jsobject =
  own :: "string \<rightharpoonup> jsval"
  proto :: prototype

definition empty_object :: jsobject where
  "empty_object = \<lparr>own = Map.empty, proto = ObjectPrototype\<rparr>"

definition inherits_proto_accessor :: "jsobject \<Rightarrow> bool" where
  "inherits_proto_accessor acc =
     (own acc ''__proto__'' = None \<and>
      (case proto acc of
         ObjectPrototype \<Rightarrow> True
       | NullPrototype \<Rightarrow> False
       | ObjPrototype fs \<Rightarrow> map_of fs ''__proto__'' = None
       | ArrPrototype xs \<Rightarrow> True))"

definition proto_setter :: "jsobject \<Rightarrow> jsval \<Rightarrow> jsobject" where
  "proto_setter acc v =
     (case v of
        J (JObj fs) \<Rightarrow> acc\<lparr>proto := ObjPrototype fs\<rparr>
      | J (JArr xs) \<Rightarrow> acc\<lparr>proto := ArrPrototype xs\<rparr>
      | J JNull \<Rightarrow> acc\<lparr>proto := NullPrototype\<rparr>
      | _ \<Rightarrow> acc)"

definition set_prop :: "jsobject \<Rightarrow> string \<Rightarrow> jsval \<Rightarrow> jsobject" where
  "set_prop acc k v =
     (if k = ''__proto__'' \<and> inherits_proto_accessor acc then proto_setter acc v
      else acc\<lparr>own := (own acc)(k \<mapsto> v)\<rparr>)"

text \<open>
  \<open>obj.name\<close>: the own property, else what the prototype holds. It is exact for an
  own property, and for a name that is no property of \<open>Object.prototype\<close> or of an
  array (the scripts read \<open>BucketName\<close>, \<open>Region\<close>, \<open>TrustPolicyAccountIdOne\<close>
  and \<open>TrustPolicyAccountIdTwo\<close>).
\<close>

definition get_prop :: "jsobject \<Rightarrow> string \<Rightarrow> jsval" where
  "get_prop obj name =
     (case own obj name of
        Some v \<Rightarrow> v
      | None \<Rightarrow>
          (case proto obj of
             ObjPrototype fs \<Rightarrow> (case map_of fs name of None \<Rightarrow> Undefined | Some j \<Rightarrow> J j)
           | _ \<Rightarrow> Undefined))"

text \<open>
  The callback of \<open>reduce\<close>, over the elements in order. \<open>None\<close> is a TypeError:
  an element \<open>null\<close>, or an \<open>OutputKey\<close> that has no text.
\<close>

fun reduce_outputs :: "json list \<Rightarrow> jsobject \<Rightarrow> jsobject option" where
  "reduce_outputs [] acc = Some acc"
| "reduce_outputs (output # rest) acc =
     (case field output ''OutputKey'' of
        None \<Rightarrow> None
      | Some k \<Rightarrow>
          (case field output ''OutputValue'' of
             None \<Rightarrow> None
           | Some v \<Rightarrow>
               (case to_text k of
                  None \<Rightarrow> None
                | Some key \<Rightarrow> reduce_outputs rest (set_prop acc key v))))"

section \<open>Processes, effects and the outside world\<close>

text \<open>
  A script runs against a world it does not control: its arguments and environment,
  the AWS CLI behind \<open>execSync\<close>, the S3 client, the seed directory, and the library
  functions \<open>JSON.parse\<close> and \<open>JSON.stringify\<close>. The world is a parameter. What
  \<open>execSync\<close> answers may depend on the commands run before it.
\<close>

record exec_error =
  message :: string
  stdout :: "string option"
  stderr :: "string option"

datatype exec_result = Ok string | Failed exec_error

datatype s3_error = NoSuchBucket string | AccessDenied string | OtherError string

record world =
  argv :: "string list"
  env :: "string \<rightharpoonup> string"
  shell :: "string list \<Rightarrow> string \<Rightarrow> exec_result"
  JSON_parse :: "string \<Rightarrow> string + json"
  JSON_stringify :: "json \<Rightarrow> string"
  writeFile_error :: "string option"
  unlink_error :: "string option"
  template_file :: string
  outputs_file :: string
  seed_directory :: string
  readdir :: "string + string list"
  stat :: "string \<Rightarrow> string + bool \<times> nat"
  readFile_error :: "string \<Rightarrow> string option"
  list_objects :: "string \<Rightarrow> s3_error option"
  put_object :: "string \<Rightarrow> string \<Rightarrow> string + string option"
  formatBytes :: "nat \<Rightarrow> string"

text \<open>
  The fields: \<open>argv\<close> is \<open>process.argv.slice(2)\<close>; \<open>shell\<close> is \<open>execSync\<close>
  (given the commands run so far); \<open>JSON_parse\<close> is \<open>Inl\<close> with the message where
  \<open>JSON.parse\<close> throws; \<open>writeFile_error\<close> and \<open>unlink_error\<close> are the messages of a failing
  \<open>fs.writeFileSync\<close> and \<open>fs.unlinkSync\<close>; \<open>template_file\<close> and
  \<open>outputs_file\<close> are the two paths made from \<open>__dirname\<close>; \<open>readdir\<close> and
  \<open>stat\<close> (is it a file, its size) answer for the seed directory, \<open>Inl\<close> being the
  error message; \<open>list_objects\<close> and \<open>put_object\<close> are the S3 client's answers to
  \<open>ListObjectsV2Command\<close> and \<open>PutObjectCommand\<close> (the entity tag on success);
  \<open>formatBytes\<close> is the floating-point size formatter, which only feeds console
  lines and is left abstract.
\<close>

text \<open>
  What a run leaves behind: the external calls and console lines in order, and the
  file \<open>outputs.json\<close>. A console line is modelled without its pictograph and the
  blanks after it, and a rule of box-drawing characters as hyphens.
\<close>

datatype event =
    Exec string
  | Log string
  | LogObject jsobject
  | Err string
  | WriteOutputs string
  | UnlinkOutputs
  | ListObjects string
  | PutObject string string

datatype file_state = Absent | Unreadable | Content string

record state =
  trace :: "event list"
  outputs_json :: file_state

text \<open>
  How a piece of script ends: it returns a value, it calls \<open>process.exit(code)\<close>, an
  exception leaves it, or it meets a value whose JavaScript semantics this
  development does not spell out (\<open>Unmodelled\<close>; nothing is proved about such runs).
\<close>

datatype 'a result = Return 'a | Exit nat | Throw string | Unmodelled

type_synonym 'a prog = "state \<Rightarrow> 'a result \<times> state"

definition ret :: "'a \<Rightarrow> 'a prog" where
  "ret x = (\<lambda>s. (Return x, s))"

definition seq :: "'a prog \<Rightarrow> ('a \<Rightarrow> 'b prog) \<Rightarrow> 'b prog" where
  "seq m f = (\<lambda>s. case m s of
      (Return x, s') \<Rightarrow> f x s'
    | (Exit n, s') \<Rightarrow> (Exit n, s')
    | (Throw e, s') \<Rightarrow> (Throw e, s')
    | (Unmodelled, s') \<Rightarrow> (Unmodelled, s'))"

definition and_then :: "unit prog \<Rightarrow> 'b prog \<Rightarrow> 'b prog" where
  "and_then m k = seq m (\<lambda>_. k)"

definition try_catch :: "'a prog \<Rightarrow> (string \<Rightarrow> 'a prog) \<Rightarrow> 'a prog" where
  "try_catch m handler = (\<lambda>s. case m s of (Throw e, s') \<Rightarrow> handler e s' | r \<Rightarrow> r)"

definition throw :: "string \<Rightarrow> 'a prog" where
  "throw e = (\<lambda>s. (Throw e, s))"

definition process_exit :: "nat \<Rightarrow> 'a prog" where
  "process_exit code = (\<lambda>s. (Exit code, s))"

definition unmodelled :: "'a prog" where
  "unmodelled = (\<lambda>s. (Unmodelled, s))"

definition emit :: "event \<Rightarrow> unit prog" where
  "emit e = (\<lambda>s. (Return (), s\<lparr>trace := trace s @ [e]\<rparr>))"

definition console_log :: "string \<Rightarrow> unit prog" where
  "console_log line = emit (Log line)"

definition console_error :: "string \<Rightarrow> unit prog" where
  "console_error line = emit (Err line)"

text \<open>The commands run so far, oldest first.\<close>

fun executed :: "event list \<Rightarrow> string list" where
  "executed [] = []"
| "executed (Exec c # es) = c # executed es"
| "executed (e # es) = executed es"

text \<open>\<open>execSync(command)\<close>; its exception is a value here, every caller catches it.\<close>

definition execSync :: "world \<Rightarrow> string \<Rightarrow> exec_result prog" where
  "execSync w command =
     (\<lambda>s. (Return (shell w (executed (trace s)) command), s\<lparr>trace := trace s @ [Exec command]\<rparr>))"

text \<open>A template literal's \<open>${x}\<close>.\<close>

definition template :: "jsval \<Rightarrow> string prog" where
  "template v = (case to_text v of None \<Rightarrow> throw ''TypeError'' | Some t \<Rightarrow> ret t)"

definition get_field :: "json \<Rightarrow> string \<Rightarrow> jsval prog" where
  "get_field x name = (case field x name of None \<Rightarrow> throw ''TypeError'' | Some v \<Rightarrow> ret v)"

section \<open>\<open>utils/read-outputs\<close>\<close>

text \<open>
  \<open>fs.readFile\<close> of \<open>outputs.json\<close> rejects when the file is absent or cannot be
  read. \<open>reduce\<close> exists on arrays only: on any other parsed value the call is a
  TypeError. The \<open>catch\<close> of \<open>readOutputs\<close> returns \<open>{}\<close>.
\<close>

definition read_outputs_file :: "string prog" where
  "read_outputs_file =
     (\<lambda>s. case outputs_json s of
         Absent \<Rightarrow> (Throw ''ENOENT'', s)
       | Unreadable \<Rightarrow> (Throw ''EACCES'', s)
       | Content t \<Rightarrow> (Return t, s))"

definition readOutputs_try :: "world \<Rightarrow> jsobject prog" where
  "readOutputs_try w =
     seq read_outputs_file (\<lambda>outputContents.
       case JSON_parse w outputContents of
         Inl syntax_error \<Rightarrow> throw syntax_error
       | Inr (JArr outputs) \<Rightarrow>
           (case reduce_outputs outputs empty_object of
              None \<Rightarrow> throw ''TypeError''
            | Some acc \<Rightarrow> ret acc)
       | Inr _ \<Rightarrow> throw ''TypeError'')"

definition readOutputs :: "world \<Rightarrow> jsobject prog" where
  "readOutputs w = try_catch (readOutputs_try w) (\<lambda>error. ret empty_object)"

section \<open>Helpers shared by the deploy and teardown scripts\<close>

text \<open>
  \<open>log\<close>, \<open>execCommand\<close>, \<open>execCommandSafe\<close>, \<open>checkAWSCLI\<close>,
  \<open>checkAWSCredentials\<close> and \<open>stackExists\<close> stand in both scripts with the same
  text; only the prefix that \<open>log\<close> prints differs, so it is a parameter here.
\<close>

definition STACK_NAME :: string where
  "STACK_NAME = ''s3-mcp-infrastructure''"

definition log :: "string \<Rightarrow> string \<Rightarrow> unit prog" where
  "log tag msg = console_log (''['' @ tag @ ''] '' @ msg)"

text \<open>\<open>if (x) print(label, x)\<close> for a captured stream \<open>x\<close>.\<close>

definition print_if_present :: "(string \<Rightarrow> unit prog) \<Rightarrow> string \<Rightarrow> string option \<Rightarrow> unit prog" where
  "print_if_present print label x =
     (case x of
        None \<Rightarrow> ret ()
      | Some t \<Rightarrow> if t \<noteq> [] then print (label @ '' '' @ t) else ret ())"

definition execCommand :: "string \<Rightarrow> world \<Rightarrow> string \<Rightarrow> string \<Rightarrow> string prog" where
  "execCommand tag w command description =
     and_then (log tag description)
       (seq (execSync w command) (\<lambda>r.
          case r of
            Ok result \<Rightarrow> ret result
          | Failed error \<Rightarrow>
              and_then (console_error (''Error: '' @ message error))
             (and_then (print_if_present console_log ''STDOUT:'' (stdout error))
             (and_then (print_if_present console_error ''STDERR:'' (stderr error))
               (process_exit 1)))))"

text \<open>
  The safe form returns the outcome: \<open>Ok result\<close> is \<open>{success: true, result}\<close>,
  \<open>Failed error\<close> is \<open>{success: false, error, stdout, stderr}\<close>.
\<close>

definition execCommandSafe :: "string \<Rightarrow> world \<Rightarrow> string \<Rightarrow> string \<Rightarrow> exec_result prog" where
  "execCommandSafe tag w command description =
     and_then (log tag description) (execSync w command)"

definition checkAWSCLI :: "string \<Rightarrow> world \<Rightarrow> unit prog" where
  "checkAWSCLI tag w =
     seq (execSync w ''aws --version'') (\<lambda>r.
       case r of
         Ok _ \<Rightarrow> log tag ''AWS CLI is installed and available''
       | Failed _ \<Rightarrow>
           and_then (console_error ''Error: AWS CLI is not installed or not available in PATH'')
          (and_then (console_error
             ''Please install AWS CLI: https://docs.aws.amazon.com/cli/latest/userguide/getting-started-install.html'')
            (process_exit 1)))"

definition checkAWSCredentials :: "string \<Rightarrow> world \<Rightarrow> unit prog" where
  "checkAWSCredentials tag w =
     seq (execSync w ''aws sts get-caller-identity'') (\<lambda>r.
       case r of
         Ok _ \<Rightarrow> log tag ''AWS credentials are configured''
       | Failed _ \<Rightarrow>
           and_then (console_error ''Error: AWS credentials are not configured'')
          (and_then (console_error ''Please configure AWS credentials using: aws configure'')
            (process_exit 1)))"

definition describe_stacks :: "string \<Rightarrow> string \<Rightarrow> string" where
  "describe_stacks stackName region_text =
     ''aws cloudformation describe-stacks --stack-name '' @ stackName @ '' --region '' @ region_text"

definition stackExists :: "world \<Rightarrow> string \<Rightarrow> string \<Rightarrow> bool prog" where
  "stackExists w stackName region_text =
     seq (execSync w (describe_stacks stackName region_text)) (\<lambda>r.
       ret (case r of Ok _ \<Rightarrow> True | Failed _ \<Rightarrow> False))"

section \<open>The deploy script\<close>

record base_options =
  region :: "string option"

record options = base_options +
  bucketName :: "string option"
  trustAccountOne :: "string option"
  trustAccountTwo :: "string option"

definition usage_deploy :: string where
  "usage_deploy = text_of_lines
    ['''',
     ''Usage: node deploy.js [options]'',
     '''',
     ''Options:'',
     ''  --region <region>                    AWS region to deploy to (default: us-east-1)'',
     ''  --bucket-name <name>                 S3 bucket name (default: s3-mcp-bucket)'',
     ''  --trust-account-one <account-id>     First Vendia account ID for trust policy (default: 690332314549)'',
     ''  --trust-account-two <account-id>     Second Vendia account ID for trust policy (default: 332134949057)'',
     ''  --help, -h                           Show this help message'',
     '''',
     ''Environment Variables:'',
     ''  AWS_DEFAULT_REGION                   AWS region (overridden by --region)'',
     ''  BUCKET_NAME                          S3 bucket name (overridden by --bucket-name)'',
     ''  TRUST_ACCOUNT_ONE                    First Vendia account ID (overridden by --trust-account-one)'',
     ''  TRUST_ACCOUNT_TWO                    Second Vendia account ID (overridden by --trust-account-two)'',
     ''        '']"

text \<open>
  The loop of \<open>parseArgs\<close>. A flag takes the next argument as its value, which is
  \<open>undefined\<close> when the flag stands last; every other argument is skipped.
\<close>

fun parseArgs_loop :: "string list \<Rightarrow> options \<Rightarrow> options prog" where
  "parseArgs_loop [] options = ret options"
| "parseArgs_loop (arg # rest) options =
     (if arg = ''--region'' then
        (case rest of
           [] \<Rightarrow> ret (options\<lparr>region := None\<rparr>)
         | v # rest' \<Rightarrow> parseArgs_loop rest' (options\<lparr>region := Some v\<rparr>))
      else if arg = ''--bucket-name'' then
        (case rest of
           [] \<Rightarrow> ret (options\<lparr>bucketName := None\<rparr>)
         | v # rest' \<Rightarrow> parseArgs_loop rest' (options\<lparr>bucketName := Some v\<rparr>))
      else if arg = ''--trust-account-one'' then
        (case rest of
           [] \<Rightarrow> ret (options\<lparr>trustAccountOne := None\<rparr>)
         | v # rest' \<Rightarrow> parseArgs_loop rest' (options\<lparr>trustAccountOne := Some v\<rparr>))
      else if arg = ''--trust-account-two'' then
        (case rest of
           [] \<Rightarrow> ret (options\<lparr>trustAccountTwo := None\<rparr>)
         | v # rest' \<Rightarrow> parseArgs_loop rest' (options\<lparr>trustAccountTwo := Some v\<rparr>))
      else if arg = ''--help'' \<or> arg = ''-h'' then
        and_then (console_log usage_deploy) (process_exit 0)
      else parseArgs_loop rest options)"

definition default_options :: options where
  "default_options =
     \<lparr>region = Some ''us-east-1'', bucketName = None, trustAccountOne = None, trustAccountTwo = None\<rparr>"

definition parseArgs :: "world \<Rightarrow> options prog" where
  "parseArgs w =
     seq (parseArgs_loop (argv w) default_options) (\<lambda>options.
       if \<not> truthy (str_val (region options)) then
         and_then (console_error ''Error: Region is required'') (process_exit 1)
       else ret options)"

text \<open>The four resolution chains at the head of \<open>deployStack\<close>.\<close>

definition resolve_bucketName :: "world \<Rightarrow> options \<Rightarrow> jsobject \<Rightarrow> jsval" where
  "resolve_bucketName w options previousOutputs =
     or_else (or_else (str_val (bucketName options)) (str_val (env w ''BUCKET_NAME'')))
       (get_prop previousOutputs ''BucketName'')"

definition resolve_region :: "world \<Rightarrow> options \<Rightarrow> jsobject \<Rightarrow> jsval" where
  "resolve_region w options previousOutputs =
     or_else (or_else (or_else (str_val (region options)) (str_val (env w ''AWS_DEFAULT_REGION'')))
       (get_prop previousOutputs ''Region'')) (J (JStr ''us-east-1''))"

definition resolve_trustAccountOne :: "world \<Rightarrow> options \<Rightarrow> jsobject \<Rightarrow> jsval" where
  "resolve_trustAccountOne w options previousOutputs =
     or_else (or_else (or_else (str_val (trustAccountOne options)) (str_val (env w ''TRUST_ACCOUNT_ONE'')))
       (get_prop previousOutputs ''TrustPolicyAccountIdOne'')) (J (JStr ''690332314549''))"

definition resolve_trustAccountTwo :: "world \<Rightarrow> options \<Rightarrow> jsobject \<Rightarrow> jsval" where
  "resolve_trustAccountTwo w options previousOutputs =
     or_else (or_else (or_else (str_val (trustAccountTwo options)) (str_val (env w ''TRUST_ACCOUNT_TWO'')))
       (get_prop previousOutputs ''TrustPolicyAccountIdTwo'')) (J (JStr ''332134949057''))"

text \<open>
  The command of the stack operation. In the template literal a doubled backslash
  before the line end leaves a backslash and a line feed in the command; a single
  one continues the line.
\<close>

definition stack_command :: "world \<Rightarrow> string \<Rightarrow> string \<Rightarrow> string \<Rightarrow> string \<Rightarrow> string" where
  "stack_command w operation trustAccountOne_text trustAccountTwo_text region_text =
     ''aws cloudformation '' @ operation @ '' '' @ [backslash, newline] @
     ''    --stack-name '' @ STACK_NAME @ '' '' @ [backslash, newline] @
     ''    --template-body file://'' @ template_file w @ '' '' @ [backslash, newline] @
     ''    --parameters '' @
     ''        ParameterKey=YourBucketName,ParameterValue=s3-mcp-test-bucket-12345 '' @
     ''        ParameterKey=TrustPolicyAccountIdOne,ParameterValue='' @ trustAccountOne_text @ '' '' @
     ''        ParameterKey=TrustPolicyAccountIdTwo,ParameterValue='' @ trustAccountTwo_text @ '' '' @
     ''    --capabilities CAPABILITY_NAMED_IAM '' @ [backslash, newline] @
     ''    --region '' @ region_text"

definition wait_command :: "string \<Rightarrow> string \<Rightarrow> string" where
  "wait_command waitCommand region_text =
     ''aws cloudformation wait '' @ waitCommand @ '' --stack-name '' @ STACK_NAME @
     '' --region '' @ region_text"

definition outputs_command :: "string \<Rightarrow> string" where
  "outputs_command region_text =
     ''aws cloudformation describe-stacks --stack-name '' @ STACK_NAME @
     '' --query '' @ [squote] @ ''Stacks[0].Outputs'' @ [squote] @
     '' --output json --region '' @ region_text"

definition trust_policy_example :: string where
  "trust_policy_example = text_of_lines
    ['''',
     ''{'',
     ''  '' @ [dquote] @ ''Version'' @ [dquote] @ '': '' @ [dquote] @ ''2012-10-17'' @ [dquote] @ '','',
     ''  '' @ [dquote] @ ''Statement'' @ [dquote] @ '': ['',
     ''    {'',
     ''      '' @ [dquote] @ ''Effect'' @ [dquote] @ '': '' @ [dquote] @ ''Allow'' @ [dquote] @ '','',
     ''      '' @ [dquote] @ ''Principal'' @ [dquote] @ '': {'',
     ''        '' @ [dquote] @ ''AWS'' @ [dquote] @ '': ['',
     ''          '' @ [dquote] @ ''arn:aws:iam::TRUST_ACCOUNT_ONE:root'' @ [dquote] @ '','',
     ''          '' @ [dquote] @ ''arn:aws:iam::TRUST_ACCOUNT_TWO:root'' @ [dquote],
     ''        ]'',
     ''      },'',
     ''      '' @ [dquote] @ ''Action'' @ [dquote] @ '': '' @ [dquote] @ ''sts:AssumeRole'' @ [dquote],
     ''    }'',
     ''  ]'',
     ''} '',
     '''',
     ''Example:'',
     ''node deploy.js --trust-account-one 690332314549 --trust-account-two 332134949057 --bucket-name s3-mcp-test-bucket-12345'',
     '''']"

definition rule_line :: string where
  "rule_line = replicate 102 (CHR ''-'')"

text \<open>\<open>fs.writeFileSync\<close> on \<open>outputs.json\<close>; a failing write leaves the file as it was.\<close>

definition writeFileSync :: "world \<Rightarrow> string \<Rightarrow> unit prog" where
  "writeFileSync w contents =
     (case writeFile_error w of
        Some e \<Rightarrow> throw e
      | None \<Rightarrow>
          (\<lambda>s. (Return (), s\<lparr>trace := trace s @ [WriteOutputs contents],
                               outputs_json := Content contents\<rparr>)))"

text \<open>
  The closing display. \<open>forEach\<close> exists on arrays only; a string has a length but
  no \<open>forEach\<close>; a parsed object with a \<open>length\<close> of its own is not modelled.
\<close>

fun display_each :: "json list \<Rightarrow> unit prog" where
  "display_each [] = ret ()"
| "display_each (output # rest) =
     seq (get_field output ''OutputKey'') (\<lambda>k.
     seq (template k) (\<lambda>key_text.
     seq (get_field output ''OutputValue'') (\<lambda>v.
     seq (template v) (\<lambda>value_text.
     and_then (console_log (key_text @ '': '' @ value_text))
       (display_each rest)))))"

definition display_outputs :: "json \<Rightarrow> unit prog" where
  "display_outputs outputsData =
     and_then (console_log ([backslash] @ ''nStack Outputs:''))
       (case outputsData of
          JArr xs \<Rightarrow> if length xs > 0 then display_each xs else console_log ''No outputs found''
        | JStr s \<Rightarrow> if s \<noteq> [] then throw ''TypeError'' else console_log ''No outputs found''
        | JObj fs \<Rightarrow>
            if map_of fs ''length'' = None then console_log ''No outputs found'' else unmodelled
        | _ \<Rightarrow> console_log ''No outputs found'')"

text \<open>
  The part of \<open>deployStack\<close> after the stack operation: fetch the outputs with the
  strict runner, parse them, write \<open>outputs.json\<close>, display them.
\<close>

definition fetch_and_persist :: "world \<Rightarrow> string \<Rightarrow> unit prog" where
  "fetch_and_persist w region_text =
     seq (execCommand ''DEPLOY'' w (outputs_command region_text) ''Getting stack outputs...'')
       (\<lambda>outputs.
     case JSON_parse w outputs of
       Inl syntax_error \<Rightarrow>
         and_then (console_error (''Error parsing stack outputs JSON: '' @ syntax_error))
           (process_exit 1)
     | Inr outputsData \<Rightarrow>
         and_then
           (try_catch
              (and_then (writeFileSync w (JSON_stringify w outputsData))
                 (log ''DEPLOY'' (''Stack outputs written to: '' @ outputs_file w)))
              (\<lambda>error.
                 and_then (console_error (''Error writing outputs file: '' @ error))
                   (process_exit 1)))
           (display_outputs outputsData))"

text \<open>
  The stack operation through the safe runner, and what follows its outcome: the
  wait on success, nothing on the \<open>No updates\<close> failure, exit 1 on any other.
\<close>

definition run_stack_operation :: "world \<Rightarrow> bool \<Rightarrow> string \<Rightarrow> string \<Rightarrow> unit prog" where
  "run_stack_operation w stack_exists command region_text =
     seq (execCommandSafe ''DEPLOY'' w command
            ((if stack_exists then ''Updating'' else ''Creating'') @ '' CloudFormation stack...''))
       (\<lambda>result.
     case result of
       Failed error \<Rightarrow>
         if (case stderr error of
               None \<Rightarrow> False
             | Some t \<Rightarrow> t \<noteq> [] \<and> str_includes t ''No updates are to be performed'')
         then log ''DEPLOY'' ''No updates are needed - stack is already up to date!''
         else
           and_then (console_error (''Error: '' @ message error))
          (and_then (print_if_present console_log ''STDOUT:'' (stdout error))
          (and_then (print_if_present console_error ''STDERR:'' (stderr error))
            (process_exit 1)))
     | Ok _ \<Rightarrow>
         and_then (log ''DEPLOY'' ''Waiting for stack operation to complete...'')
        (seq (execCommand ''DEPLOY'' w
                (wait_command (if stack_exists then ''stack-update-complete'' else ''stack-create-complete'')
                   region_text)
                ''Waiting for stack operation to complete...'')
           (\<lambda>_. log ''DEPLOY'' ''Stack deployment completed successfully!'')))"

definition deployStack :: "world \<Rightarrow> options \<Rightarrow> unit prog" where
  "deployStack w options =
     seq (readOutputs w) (\<lambda>previousOutputs.
     and_then (emit (LogObject previousOutputs))
     (let bucket = resolve_bucketName w options previousOutputs;
          reg = resolve_region w options previousOutputs;
          one = resolve_trustAccountOne w options previousOutputs;
          two = resolve_trustAccountTwo w options previousOutputs
      in
      and_then (log ''DEPLOY'' (''Deploying stack: '' @ STACK_NAME))
     (seq (template bucket) (\<lambda>bucketName_text.
      and_then (log ''DEPLOY'' (''Using bucket name: '' @ bucketName_text))
     (seq (template reg) (\<lambda>region_text.
      and_then (log ''DEPLOY'' (''Using region: '' @ region_text))
     (and_then (console_log rule_line)
     (and_then (log ''DEPLOY'' ''Vendia Trust Relationship AWS Accounts:'')
     (seq (template one) (\<lambda>trustAccountOne_text.
      and_then (log ''DEPLOY'' (''Using trust account one: '' @ trustAccountOne_text))
     (seq (template two) (\<lambda>trustAccountTwo_text.
      and_then (log ''DEPLOY'' (''Using trust account two: '' @ trustAccountTwo_text))
     (and_then (console_log ''https://docs.vendia.com/platform/vendia-mcp-server/storage-connections/'')
     (and_then (console_log rule_line)
     (and_then (log ''DEPLOY'' (''Using template: '' @ template_file w))
     (seq (stackExists w STACK_NAME region_text) (\<lambda>stack_exists.
      let operation = (if stack_exists then ''update-stack'' else ''create-stack'');
          command = stack_command w operation trustAccountOne_text trustAccountTwo_text region_text
      in
      if \<not> truthy one \<or> \<not> truthy two then
        and_then (console_error ''Error: AWS account IDs for Trusted Relationships are required'')
       (and_then (console_log trust_policy_example)
         (throw ''AWS account IDs for Trusted Relationships are required''))
      else
        and_then (run_stack_operation w stack_exists command region_text)
          (fetch_and_persist w region_text))))))))))))))))))"

definition main_deploy :: "world \<Rightarrow> unit prog" where
  "main_deploy w =
     seq (parseArgs w) (\<lambda>options.
     and_then (log ''DEPLOY'' ''Starting S3 MCP infrastructure deployment...'')
    (and_then (checkAWSCLI ''DEPLOY'' w)
    (and_then (checkAWSCredentials ''DEPLOY'' w)
    (and_then (deployStack w options)
      (log ''DEPLOY'' ''StackDeployment completed successfully!'')))))"

section \<open>The teardown script\<close>

record teardown_options = base_options +
  force :: bool

definition list_versions_command :: "string \<Rightarrow> string \<Rightarrow> string" where
  "list_versions_command bucket_text region_text =
     ''aws s3api list-object-versions --bucket '' @ bucket_text @ '' --region '' @ region_text"

definition delete_object_command :: "string \<Rightarrow> string \<Rightarrow> string \<Rightarrow> string \<Rightarrow> string" where
  "delete_object_command bucket_text key_text version_text region_text =
     ''aws s3api delete-object --bucket '' @ bucket_text @
     '' --key '' @ [dquote] @ key_text @ [dquote] @
     '' --version-id '' @ version_text @ '' --region '' @ region_text"






text \<open>
  \<open>listData.Versions || []\<close> (and the same for \<open>DeleteMarkers\<close>): the array, or the
  empty one when the field is missing or falsy. A truthy value that is no array is
  not modelled.
\<close>

definition listed :: "json \<Rightarrow> string \<Rightarrow> json list prog" where
  "listed listData name =
     seq (get_field listData name) (\<lambda>v.
       if \<not> truthy v then ret []
       else (case v of J (JArr xs) \<Rightarrow> ret xs | _ \<Rightarrow> unmodelled))"

text \<open>
  One of the two \<open>for ... of\<close> loops of \<open>clearS3Bucket\<close>; \<open>what\<close> opens the
  description (\<open>Deleting version: \<close> or \<open>Deleting delete marker: \<close>). The outcome of
  each delete is dropped.
\<close>

fun delete_each :: "world \<Rightarrow> string \<Rightarrow> string \<Rightarrow> string \<Rightarrow> json list \<Rightarrow> unit prog" where
  "delete_each w what bucket_text region_text [] = ret ()"
| "delete_each w what bucket_text region_text (version # rest) =
     seq (get_field version ''Key'') (\<lambda>k.
     seq (template k) (\<lambda>key_text.
     seq (get_field version ''VersionId'') (\<lambda>v.
     seq (template v) (\<lambda>version_text.
     seq (execCommandSafe ''TEARDOWN'' w
            (delete_object_command bucket_text key_text version_text region_text)
            (what @ key_text @ '' ('' @ version_text @ '')'')) (\<lambda>_.
     delete_each w what bucket_text region_text rest)))))"

text \<open>
  \<open>bucketName\<close> and \<open>region\<close> enter \<open>clearS3Bucket\<close> and \<open>deleteStack\<close> as the
  texts their template literals make of them; \<open>teardown\<close> has printed both before.
\<close>

definition clearS3Bucket :: "world \<Rightarrow> string \<Rightarrow> string \<Rightarrow> unit prog" where
  "clearS3Bucket w bucket_text region_text =
     and_then (log ''TEARDOWN'' (''Clearing S3 bucket: '' @ bucket_text))
       (try_catch
          (seq (execCommandSafe ''TEARDOWN'' w (list_versions_command bucket_text region_text)
                  ''Listing all object versions and delete markers...'') (\<lambda>listResult.
             case listResult of
               Failed _ \<Rightarrow> log ''TEARDOWN'' ''Bucket appears to be empty or does not exist''
             | Ok result \<Rightarrow>
                 (case JSON_parse w result of
                    Inl syntax_error \<Rightarrow> throw syntax_error
                  | Inr listData \<Rightarrow>
                      seq (listed listData ''Versions'') (\<lambda>versions.
                      seq (listed listData ''DeleteMarkers'') (\<lambda>deleteMarkers.
                      if length versions + length deleteMarkers = 0 then
                        log ''TEARDOWN'' ''Bucket is already empty''
                      else
                        and_then (log ''TEARDOWN''
                          (''Found '' @ show_nat (length versions) @ '' object version(s) and '' @
                           show_nat (length deleteMarkers) @ '' delete marker(s) to remove''))
                       (and_then
                          (if length versions > 0
                           then delete_each w ''Deleting version: '' bucket_text region_text versions
                           else ret ())
                       (and_then
                          (if length deleteMarkers > 0
                           then delete_each w ''Deleting delete marker: '' bucket_text region_text
                                  deleteMarkers
                           else ret ())
                          (log ''TEARDOWN'' ''S3 bucket cleared successfully''))))))))
          (\<lambda>error.
             and_then (console_error (''Error clearing S3 bucket: '' @ error)) (throw error)))"

definition delete_stack_command :: "string \<Rightarrow> string \<Rightarrow> string" where
  "delete_stack_command stackName region_text =
     ''aws cloudformation delete-stack --stack-name '' @ stackName @ '' --region '' @ region_text"

definition wait_delete_command :: "string \<Rightarrow> string \<Rightarrow> string" where
  "wait_delete_command stackName region_text =
     ''aws cloudformation wait stack-delete-complete --stack-name '' @ stackName @
     '' --region '' @ region_text"

definition deleteStack :: "world \<Rightarrow> string \<Rightarrow> string \<Rightarrow> unit prog" where
  "deleteStack w stackName region_text =
     and_then (log ''TEARDOWN'' (''Deleting CloudFormation stack: '' @ stackName))
       (seq (execCommandSafe ''TEARDOWN'' w (delete_stack_command stackName region_text)
               ''Initiating stack deletion...'') (\<lambda>result.
          case result of
            Failed error \<Rightarrow>
              and_then (console_error (''Error deleting stack: '' @ message error))
             (and_then (print_if_present console_error ''STDERR:'' (stderr error))
               (throw ''Failed to delete CloudFormation stack''))
          | Ok _ \<Rightarrow>
              and_then (log ''TEARDOWN'' ''Waiting for stack deletion to complete...'')
             (seq (execCommand ''TEARDOWN'' w (wait_delete_command stackName region_text)
                     ''Waiting for stack deletion to complete...'')
                (\<lambda>_. log ''TEARDOWN'' ''CloudFormation stack deleted successfully''))))"

definition cleanupOutputs :: "world \<Rightarrow> unit prog" where
  "cleanupOutputs w =
     (\<lambda>s. if outputs_json s \<noteq> Absent then
            (case unlink_error w of
               Some e \<Rightarrow> console_error (''Error cleaning up outputs file: '' @ e) s
             | None \<Rightarrow>
                 log ''TEARDOWN'' ''Cleaned up outputs.json file''
                   (s\<lparr>trace := trace s @ [UnlinkOutputs], outputs_json := Absent\<rparr>))
          else (Return (), s))"

definition teardown :: "world \<Rightarrow> teardown_options \<Rightarrow> unit prog" where
  "teardown w options =
     seq (readOutputs w) (\<lambda>previousOutputs.
     (let bucket = get_prop previousOutputs ''BucketName'';
          reg = or_else (or_else (str_val (region options)) (get_prop previousOutputs ''Region''))
                  (J (JStr ''us-east-1''))
      in
      if \<not> truthy bucket then
        and_then (console_error ''Error: Could not determine bucket name from outputs.json'')
       (and_then (console_error ''Please ensure the stack was deployed successfully'')
         (process_exit 1))
      else
        and_then (log ''TEARDOWN'' (''Starting teardown for stack: '' @ STACK_NAME))
       (seq (template bucket) (\<lambda>bucket_text.
        and_then (log ''TEARDOWN'' (''Using bucket name: '' @ bucket_text))
       (seq (template reg) (\<lambda>region_text.
        and_then (log ''TEARDOWN'' (''Using region: '' @ region_text))
       (seq (stackExists w STACK_NAME region_text) (\<lambda>stack_exists.
        if \<not> stack_exists then log ''TEARDOWN'' ''Stack does not exist, nothing to teardown''
        else
          and_then (clearS3Bucket w bucket_text region_text)
         (and_then (deleteStack w STACK_NAME region_text)
         (and_then (cleanupOutputs w)
           (log ''TEARDOWN'' ''Teardown completed successfully!'')))))))))))"

section \<open>The seed script\<close>

text \<open>
  A seed file is \<open>{localPath, fileName, size}\<close>, an upload result
  \<open>{fileName, success, etag | error, size}\<close>. The request of an upload is modelled by
  its bucket and key; its body, content type and metadata reach only the S3 client.
\<close>

record file_info =
  fileName :: string
  fileSize :: nat

record seed_file = file_info +
  localPath :: string

record upload_result = file_info +
  success :: bool
  etag :: "string option"
  error_text :: "string option"

definition DEFAULT_REGION :: string where
  "DEFAULT_REGION = ''us-east-1''"

fun collect_files :: "world \<Rightarrow> string \<Rightarrow> string list \<Rightarrow> string + seed_file list" where
  "collect_files w directory [] = Inr []"
| "collect_files w directory (file # rest) =
     (case stat w (directory @ ''/'' @ file) of
        Inl e \<Rightarrow> Inl e
      | Inr (is_file, bytes) \<Rightarrow>
          (case collect_files w directory rest of
             Inl e \<Rightarrow> Inl e
           | Inr filePaths \<Rightarrow>
               Inr (if is_file
                    then \<lparr>fileName = file, fileSize = bytes, localPath = directory @ ''/'' @ file\<rparr> # filePaths
                    else filePaths)))"

definition getFilesFromDirectory :: "world \<Rightarrow> string \<Rightarrow> seed_file list prog" where
  "getFilesFromDirectory w directory =
     (case (case readdir w of Inl e \<Rightarrow> Inl e | Inr files \<Rightarrow> collect_files w directory files) of
        Inl e \<Rightarrow> throw (''Failed to read directory '' @ directory @ '': '' @ e)
      | Inr filePaths \<Rightarrow> ret filePaths)"

definition uploadFileToS3 :: "world \<Rightarrow> string \<Rightarrow> seed_file \<Rightarrow> upload_result prog" where
  "uploadFileToS3 w bucket_text file =
     try_catch
       (and_then (console_log (''Uploading '' @ fileName file @ '' ('' @
                     formatBytes w (fileSize file) @ '')...''))
          (case readFile_error w (localPath file) of
             Some e \<Rightarrow> throw e
           | None \<Rightarrow>
               and_then (emit (PutObject bucket_text (fileName file)))
                 (case put_object w bucket_text (fileName file) of
                    Inl e \<Rightarrow> throw e
                  | Inr tag \<Rightarrow>
                      and_then (console_log (''Successfully uploaded '' @ fileName file))
                        (ret \<lparr>fileName = fileName file, fileSize = fileSize file,
                              success = True, etag = tag, error_text = None\<rparr>))))
       (\<lambda>error.
          and_then (console_error (''Failed to upload '' @ fileName file @ '': '' @ error))
            (ret \<lparr>fileName = fileName file, fileSize = fileSize file,
                  success = False, etag = None, error_text = Some error\<rparr>))"

definition checkBucketAccess :: "world \<Rightarrow> string \<Rightarrow> bool prog" where
  "checkBucketAccess w bucket_text =
     and_then (emit (ListObjects bucket_text))
       (case list_objects w bucket_text of
          None \<Rightarrow> ret True
        | Some (NoSuchBucket m) \<Rightarrow>
            throw (''Bucket '' @ [squote] @ bucket_text @ [squote] @ '' does not exist'')
        | Some (AccessDenied m) \<Rightarrow>
            throw (''Access denied to bucket '' @ [squote] @ bucket_text @ [squote] @
                   ''. Check your AWS credentials and permissions.'')
        | Some (OtherError m) \<Rightarrow>
            throw (''Cannot access bucket '' @ [squote] @ bucket_text @ [squote] @ '': '' @ m))"

text \<open>The \<open>for ... of\<close> loop over the files: one result per file, in order.\<close>

fun upload_all :: "world \<Rightarrow> string \<Rightarrow> seed_file list \<Rightarrow> upload_result list prog" where
  "upload_all w bucket_text [] = ret []"
| "upload_all w bucket_text (file # rest) =
     seq (uploadFileToS3 w bucket_text file) (\<lambda>result.
     seq (upload_all w bucket_text rest) (\<lambda>results.
     ret (result # results)))"

fun log_lines :: "string list \<Rightarrow> unit prog" where
  "log_lines [] = ret ()"
| "log_lines (l # ls) = and_then (console_log l) (log_lines ls)"

definition shown :: "string option \<Rightarrow> string" where
  "shown x = (case x of None \<Rightarrow> ''undefined'' | Some t \<Rightarrow> t)"

text \<open>The summary after the loop, and the exit with the code it decides.\<close>

definition print_summary :: "world \<Rightarrow> upload_result list \<Rightarrow> unit prog" where
  "print_summary w results =
     (let successful = filter success results;
          failed = filter (\<lambda>r. \<not> success r) results
      in
      and_then (console_log '''')
     (and_then (console_log ''Upload Summary:'')
     (and_then (console_log ''=================='')
     (and_then
        (if length successful > 0 then
           and_then (console_log (''Successful uploads: '' @ show_nat (length successful)))
          (and_then (console_log (''Total uploaded: '' @
                       formatBytes w (sum_list (map fileSize successful))))
          (and_then (console_log '''')
          (and_then (console_log ''Successfully uploaded files:'')
            (log_lines (map (\<lambda>r. ''   '' @ fileName r @ '' - ETag: '' @ shown (etag r))
                         successful)))))
         else ret ())
     (and_then
        (if length failed > 0 then
           and_then (console_log '''')
          (and_then (console_log ''Failed uploads:'')
            (log_lines (map (\<lambda>r. ''   '' @ fileName r @ '' - Error: '' @ shown (error_text r))
                         failed)))
         else ret ())
     (and_then (console_log '''')
     (and_then (console_log
        (if length failed = 0 then ''All files uploaded successfully!''
         else ''Some uploads failed. Check the errors above.''))
       (process_exit (if length failed = 0 then 0 else 1)))))))))"

definition uploadToS3 :: "world \<Rightarrow> string \<Rightarrow> jsobject \<Rightarrow> unit prog" where
  "uploadToS3 w bucket_text outputs =
     and_then (console_log ''S3 Upload Script Starting...'')
    (and_then (console_log (''Source directory: '' @ seed_directory w))
    (and_then (console_log (''Target bucket: '' @ bucket_text))
    (seq (template (or_else (str_val (env w ''AWS_REGION'')) (J (JStr DEFAULT_REGION))))
       (\<lambda>region_text.
     and_then (console_log (''Region: '' @ region_text))
    (and_then (console_log '''')
    (try_catch
       (and_then (console_log ''Checking bucket access...'')
       (seq (checkBucketAccess w bucket_text) (\<lambda>_.
        and_then (console_log ''Bucket is accessible'')
       (and_then (console_log '''')
       (and_then (console_log ''Scanning seed directory...'')
       (seq (getFilesFromDirectory w (seed_directory w)) (\<lambda>files.
        if length files = 0 then console_log ''No files found in seed directory''
        else
          and_then (console_log (''Found '' @ show_nat (length files) @ '' files to upload:''))
         (and_then (log_lines (map (\<lambda>file. ''   - '' @ fileName file @ '' ('' @
                                 formatBytes w (fileSize file) @ '')'') files))
         (and_then (console_log '''')
         (and_then (console_log ''Starting uploads...'')
         (seq (upload_all w bucket_text files) (\<lambda>results.
            print_summary w results))))))))))))
       (\<lambda>error.
          and_then (console_error (''Script failed: '' @ error))
         (and_then (console_error '''')
         (and_then (console_error ''Common solutions:'')
         (and_then (console_error ''1. Check your AWS credentials are set correctly'')
         (and_then (console_error ''2. Verify the bucket name exists and you have access'')
         (and_then (console_error ''3. Ensure AWS_REGION is set if using a non-default region'')
         (and_then (console_error ''4. Check that the seed directory contains files'')
           (process_exit 1))))))))))))))"

text \<open>
  The test \<open>/^[a-z0-9][a-z0-9-]{1,61}[a-z0-9]$/\<close>: a first and a last character that
  are lower-case letters or digits, and between them 1 to 61 characters that are
  lower-case letters, digits or hyphens.
\<close>

definition lower_or_digit :: "char \<Rightarrow> bool" where
  "lower_or_digit c = (c \<in> set ''abcdefghijklmnopqrstuvwxyz0123456789'')"

definition bucket_pattern :: "string \<Rightarrow> bool" where
  "bucket_pattern b =
     (case b of
        [] \<Rightarrow> False
      | c # cs \<Rightarrow>
          lower_or_digit c \<and> cs \<noteq> [] \<and> lower_or_digit (last cs) \<and>
          1 \<le> length (butlast cs) \<and> length (butlast cs) \<le> 61 \<and>
          list_all (\<lambda>x. lower_or_digit x \<or> x = CHR ''-'') (butlast cs))"

text \<open>
  \<open>main\<close> of the seed script, with the \<open>catch\<close> of its call. The bucket name is the
  first argument, else \<open>BucketName\<close> of the outputs; a truthy value there that is no
  string is not modelled.
\<close>

definition main_seed_body :: "world \<Rightarrow> unit prog" where
  "main_seed_body w =
     seq (readOutputs w) (\<lambda>outputs.
     (let bucket = or_else (str_val (case argv w of [] \<Rightarrow> None | a # _ \<Rightarrow> Some a))
                     (get_prop outputs ''BucketName'')
      in
      if \<not> truthy bucket then
        and_then (console_error ''Error: Bucket name is required'')
       (and_then (console_error '''')
       (and_then (console_error ''Usage: node scripts/setup.js <bucket-name>'')
       (and_then (console_error '''')
       (and_then (console_error ''Example: node scripts/setup.js my-s3-bucket'')
       (and_then (console_error '''')
       (and_then (console_error ''Required environment variables:'')
       (and_then (console_error ''- AWS_ACCESS_KEY_ID'')
       (and_then (console_error ''- AWS_SECRET_ACCESS_KEY'')
       (and_then (console_error ''- AWS_REGION (optional, defaults to us-east-1)'')
         (process_exit 1))))))))))
      else
        (case bucket of
           J (JStr bucket_text) \<Rightarrow>
             if \<not> bucket_pattern bucket_text \<and> length bucket_text > 3 then
               and_then (console_error ''Error: Invalid bucket name format'')
              (and_then (console_error
                 ''Bucket names must be 3-63 characters long and contain only lowercase letters, numbers, and hyphens'')
                (process_exit 1))
             else uploadToS3 w bucket_text outputs
         | _ \<Rightarrow> unmodelled)))"

definition main_seed :: "world \<Rightarrow> unit prog" where
  "main_seed w =
     try_catch (main_seed_body w)
       (\<lambda>error.
          and_then (console_error (''Unhandled error: '' @ error)) (process_exit 1))"

section \<open>Composite runs and sample worlds\<close>

text \<open>
  What the end of a successful deploy and a later read do together: the write of
  \<open>JSON.stringify(outputsData, null, 2)\<close>, then \<open>readOutputs\<close>.
\<close>

definition write_then_read :: "world \<Rightarrow> json \<Rightarrow> jsobject prog" where
  "write_then_read w outputsData =
     and_then (writeFileSync w (JSON_stringify w outputsData)) (readOutputs w)"

text \<open>One element \<open>{OutputKey, OutputValue}\<close> of the array a stack describes.\<close>

definition output_pair :: "string \<times> json \<Rightarrow> json" where
  "output_pair kv = JObj [(''OutputKey'', JStr (fst kv)), (''OutputValue'', snd kv)]"

text \<open>
  A world in which every command succeeds with empty output, nothing parses, the seed
  directory is empty and every upload succeeds; the examples below vary it.
\<close>

definition quiet_world :: world where
  "quiet_world =
     \<lparr>argv = [], env = Map.empty, shell = (\<lambda>history command. Ok []),
      JSON_parse = (\<lambda>t. Inl ''Unexpected end of JSON input''),
      JSON_stringify = (\<lambda>j. []),
      writeFile_error = None, unlink_error = None,
      template_file = ''/repo/stack.yml'', outputs_file = ''/repo/outputs.json'',
      seed_directory = ''/repo/seed'', readdir = Inr [],
      stat = (\<lambda>path. Inl ''ENOENT''), readFile_error = (\<lambda>path. None),
      list_objects = (\<lambda>bucket. None), put_object = (\<lambda>bucket k. Inr None),
      formatBytes = (\<lambda>n. [])\<rparr>"

definition fresh :: state where
  "fresh = \<lparr>trace = [], outputs_json = Absent\<rparr>"

text \<open>
  A world whose \<open>JSON.stringify\<close> prints the given value as one fixed text and whose
  \<open>JSON.parse\<close> reads that text back as the value.
\<close>

definition echo_world :: "json \<Rightarrow> world" where
  "echo_world j =
     quiet_world\<lparr>JSON_parse := (\<lambda>t. if t = ''written'' then Inr j else Inl ''Unexpected token''),
                 JSON_stringify := (\<lambda>x. if x = j then ''written'' else [])\<rparr>"

definition two_outputs :: "(string \<times> json) list" where
  "two_outputs = [(''BucketName'', JStr ''my-bucket''), (''Region'', JStr ''eu-west-1'')]"

text \<open>\<open>s.startsWith(p)\<close>, to tell the commands apart.\<close>

definition starts_with :: "string \<Rightarrow> string \<Rightarrow> bool" where
  "starts_with s p = (take (length p) s = p)"

text \<open>The commands a piece of script runs when started in a state, oldest first.\<close>

definition commands_run :: "'a prog \<Rightarrow> state \<Rightarrow> string list" where
  "commands_run m s = drop (length (executed (trace s))) (executed (trace (snd (m s))))"

text \<open>
  Worlds for the deploy script. In \<open>deploy_world\<close> every command prints the text that
  parses as an empty array of outputs. \<open>empty_trust_world\<close> passes both trust
  flags with empty values and sets both environment variables to the empty text.
  \<open>env_region_world\<close> sets \<open>AWS_DEFAULT_REGION\<close> and passes no flag. In
  \<open>no_updates_world\<close> the update of the stack fails as CloudFormation does when
  nothing has changed, and every other command prints the text that parses as the
  two outputs of \<open>two_outputs\<close>; in \<open>denied_world\<close> the update fails for want of a
  permission. In \<open>array_trust_world\<close> every command succeeds and \<open>outputs.json\<close>,
  where it is present, parses as two outputs whose values are the empty array.
\<close>

definition deploy_world :: world where
  "deploy_world = (echo_world (JArr []))\<lparr>shell := (\<lambda>history command. Ok ''written'')\<rparr>"

definition empty_trust_world :: world where
  "empty_trust_world =
     deploy_world\<lparr>argv := [''--trust-account-one'', [], ''--trust-account-two'', []],
                  env := [''TRUST_ACCOUNT_ONE'' \<mapsto> [], ''TRUST_ACCOUNT_TWO'' \<mapsto> []]\<rparr>"

definition env_region_world :: world where
  "env_region_world = deploy_world\<lparr>env := [''AWS_DEFAULT_REGION'' \<mapsto> ''eu-west-1'']\<rparr>"

definition no_updates_error :: exec_error where
  "no_updates_error =
     \<lparr>message = ''Command failed: aws cloudformation update-stack'',
      stdout = Some [],
      stderr = Some ''An error occurred (ValidationError) when calling the UpdateStack operation: No updates are to be performed.''\<rparr>"

definition no_updates_world :: world where
  "no_updates_world =
     (echo_world (JArr (map output_pair two_outputs)))\<lparr>shell := (\<lambda>history command.
        if starts_with command ''aws cloudformation update-stack'' then Failed no_updates_error
        else Ok ''written'')\<rparr>"

definition denied_error :: exec_error where
  "denied_error =
     \<lparr>message = ''Command failed: aws cloudformation update-stack'',
      stdout = Some [],
      stderr = Some ''An error occurred (AccessDenied) when calling the UpdateStack operation: not authorized''\<rparr>"

definition denied_world :: world where
  "denied_world =
     deploy_world\<lparr>shell := (\<lambda>history command.
        if starts_with command ''aws cloudformation update-stack'' then Failed denied_error
        else Ok ''written'')\<rparr>"

definition array_trust_outputs :: "(string \<times> json) list" where
  "array_trust_outputs =
     [(''TrustPolicyAccountIdOne'', JArr []), (''TrustPolicyAccountIdTwo'', JArr [])]"

definition array_trust_world :: world where
  "array_trust_world =
     (echo_world (JArr (map output_pair array_trust_outputs)))\<lparr>shell :=
        (\<lambda>history command. Ok ''written'')\<rparr>"

text \<open>
  Worlds for the teardown script. In \<open>no_stack_world\<close> the outputs of a deploy are
  persisted (the state \<open>deployed\<close>) but \<open>describe-stacks\<close> fails. In
  \<open>versioned_world\<close> the listing holds two versions of a key with a blank in it and
  one delete marker, and every delete fails. In \<open>unlisted_world\<close> every command
  fails, the listing too. In \<open>quoted_key_world\<close> the listing holds one version whose
  key has a double quote in it, and a command line fails where the shell cannot
  split it.
\<close>

definition missing_stack_error :: exec_error where
  "missing_stack_error =
     \<lparr>message = ''Command failed: aws cloudformation describe-stacks'',
      stdout = Some [],
      stderr = Some ''An error occurred (ValidationError) when calling the DescribeStacks operation: Stack with id s3-mcp-infrastructure does not exist''\<rparr>"

definition no_stack_world :: world where
  "no_stack_world =
     (echo_world (JArr (map output_pair two_outputs)))\<lparr>shell := (\<lambda>history command.
        if starts_with command ''aws cloudformation describe-stacks'' then Failed missing_stack_error
        else Ok ''written'')\<rparr>"

definition deployed :: state where
  "deployed = \<lparr>trace = [], outputs_json = Content ''written''\<rparr>"










text \<open>
  The error that the upload of a file meets in a world, if any: that of reading the
  file, else that of the put.
\<close>

definition upload_error :: "world \<Rightarrow> string \<Rightarrow> seed_file \<Rightarrow> string option" where
  "upload_error w bucket_text file =
     (case readFile_error w (localPath file) of
        Some e \<Rightarrow> Some e
      | None \<Rightarrow> (case put_object w bucket_text (fileName file) of Inl e \<Rightarrow> Some e | Inr tag \<Rightarrow> None))"

text \<open>
  What the upload of one file returns and what it leaves in the trace, as functions of
  the world; the loop over the files is unrolled with them.
\<close>

definition upload_outcome :: "world \<Rightarrow> string \<Rightarrow> seed_file \<Rightarrow> upload_result" where
  "upload_outcome w bucket_text file =
     (case upload_error w bucket_text file of
        Some e \<Rightarrow> \<lparr>fileName = fileName file, fileSize = fileSize file,
                    success = False, etag = None, error_text = Some e\<rparr>
      | None \<Rightarrow> \<lparr>fileName = fileName file, fileSize = fileSize file,
                  success = True,
                  etag = (case put_object w bucket_text (fileName file) of Inl e \<Rightarrow> None | Inr tag \<Rightarrow> tag),
                  error_text = None\<rparr>)"

definition upload_events :: "world \<Rightarrow> string \<Rightarrow> seed_file \<Rightarrow> event list" where
  "upload_events w bucket_text file =
     Log (''Uploading '' @ fileName file @ '' ('' @ formatBytes w (fileSize file) @ '')...'') #
     (case readFile_error w (localPath file) of
        Some e \<Rightarrow> [Err (''Failed to upload '' @ fileName file @ '': '' @ e)]
      | None \<Rightarrow>
          PutObject bucket_text (fileName file) #
          (case put_object w bucket_text (fileName file) of
             Inl e \<Rightarrow> [Err (''Failed to upload '' @ fileName file @ '': '' @ e)]
           | Inr tag \<Rightarrow> [Log (''Successfully uploaded '' @ fileName file)]))"

text \<open>
  Worlds for the seed script. In \<open>seed_world\<close> the seed directory holds three files
  of 120 bytes and a directory, the upload of the second file is denied, and a size
  below 1024 prints as its number of bytes. In \<open>short_name_world\<close> the bucket name
  given on the command line is \<open>ab\<close>, the seed directory holds one file and its upload
  succeeds.
\<close>

definition seed_world :: world where
  "seed_world =
     quiet_world\<lparr>readdir := Inr [''q1_2024_sales.csv'', ''q2_2024_sales.csv'', ''archive'',
                                  ''q3_2024_sales.csv''],
       stat := (\<lambda>path. if path = ''/repo/seed/archive'' then Inr (False, 0) else Inr (True, 120)),
       put_object := (\<lambda>bucket k. if k = ''q2_2024_sales.csv'' then Inl ''Access Denied''
                                   else Inr (Some ''etag-1'')),
       formatBytes := (\<lambda>n. show_nat n @ '' Bytes'')\<rparr>"

definition short_name_world :: world where
  "short_name_world =
     quiet_world\<lparr>argv := [''ab''], readdir := Inr [''q1_2024_sales.csv''],
       stat := (\<lambda>path. Inr (True, 120)),
       put_object := (\<lambda>bucket k. Inr (Some ''etag-1''))\<rparr>"

text \<open>As \<open>short_name_world\<close>, with the bucket name \<open>My_Bucket\<close>.\<close>

definition long_name_world :: world where
  "long_name_world = short_name_world\<lparr>argv := [''My_Bucket'']\<rparr>"

section \<open>Basic facts\<close>

lemmas prog_defs = ret_def seq_def and_then_def try_catch_def throw_def process_exit_def
  unmodelled_def emit_def console_log_def console_error_def execSync_def template_def
  get_field_def log_def

lemma readOutputs_try_state: "snd (readOutputs_try w s) = s"
  by (simp add: readOutputs_try_def read_outputs_file_def prog_defs
      split: file_state.splits sum.splits json.splits option.splits)

lemma readOutputs_try_outcome:
  "(\<exists>obj. fst (readOutputs_try w s) = Return obj) \<or> (\<exists>e. fst (readOutputs_try w s) = Throw e)"
  by (simp add: readOutputs_try_def read_outputs_file_def prog_defs
      split: file_state.splits sum.splits json.splits option.splits)

lemma readOutputs_returns: "\<exists>obj. readOutputs w s = (Return obj, s)"
proof -
  obtain r s' where rs: "readOutputs_try w s = (r, s')" by (cases "readOutputs_try w s")
  from readOutputs_try_state [of w s] rs have s': "s' = s" by simp
  from readOutputs_try_outcome [of w s] rs
  consider obj where "r = Return obj" | e where "r = Throw e"
    by auto
  then show ?thesis
    by cases (simp_all add: readOutputs_def try_catch_def ret_def rs s')
qed

section \<open>Reading the outputs record\<close>

text \<open>
  Claim C10. Whatever the state of \<open>outputs.json\<close>, \<open>readOutputs\<close> returns an object
  and leaves the run as it was: it never throws. When the file is absent, cannot be
  read, or holds text that \<open>JSON.parse\<close> rejects, the object is the empty one, and a
  resolution chain that reads a name from the empty object falls through to its next
  source.
\<close>

theorem readOutputs_never_throws:
  "(\<exists>obj. readOutputs w s = (Return obj, s)) \<and>
   (outputs_json s = Absent \<or> outputs_json s = Unreadable \<or>
      (\<exists>t e. outputs_json s = Content t \<and> JSON_parse w t = Inl e)
    \<longrightarrow> readOutputs w s = (Return empty_object, s)) \<and>
   (\<forall>name fallback. or_else (get_prop empty_object name) fallback = fallback)"
proof (intro conjI)
  show "\<exists>obj. readOutputs w s = (Return obj, s)" by (rule readOutputs_returns)
  show "outputs_json s = Absent \<or> outputs_json s = Unreadable \<or>
      (\<exists>t e. outputs_json s = Content t \<and> JSON_parse w t = Inl e)
    \<longrightarrow> readOutputs w s = (Return empty_object, s)"
    by (auto simp add: readOutputs_def readOutputs_try_def read_outputs_file_def prog_defs)
  show "\<forall>name fallback. or_else (get_prop empty_object name) fallback = fallback"
    by (simp add: or_else_def get_prop_def empty_object_def)
qed

theorem readOutputs_never_throws_witness:
  "outputs_json (fresh\<lparr>outputs_json := Content ''{oops''\<rparr>) = Content ''{oops'' \<and>
   JSON_parse quiet_world ''{oops'' = Inl ''Unexpected end of JSON input'' \<and>
   readOutputs quiet_world (fresh\<lparr>outputs_json := Content ''{oops''\<rparr>)
     = (Return empty_object, fresh\<lparr>outputs_json := Content ''{oops''\<rparr>)"
  using readOutputs_never_throws [of quiet_world "fresh\<lparr>outputs_json := Content ''{oops''\<rparr>"]
  by (simp add: quiet_world_def)

section \<open>Writing the outputs and reading them back\<close>

lemma set_prop_plain:
  "k \<noteq> ''__proto__'' \<Longrightarrow> set_prop acc k v = acc\<lparr>own := (own acc)(k \<mapsto> v)\<rparr>"
  by (simp add: set_prop_def)

lemma reduce_output_pairs:
  "''__proto__'' \<notin> fst ` set kvs \<Longrightarrow>
   \<exists>obj. reduce_outputs (map output_pair kvs) acc = Some obj \<and>
     own obj = own acc ++ map_of (rev (map (\<lambda>kv. (fst kv, J (snd kv))) kvs)) \<and>
     proto obj = proto acc"
proof (induction kvs arbitrary: acc)
  case Nil
  then show ?case by simp
next
  case (Cons kv kvs)
  from Cons.prems have k: "fst kv \<noteq> ''__proto__''" and rest: "''__proto__'' \<notin> fst ` set kvs"
    by auto
  let ?acc = "acc\<lparr>own := (own acc)(fst kv \<mapsto> J (snd kv))\<rparr>"
  have step: "reduce_outputs (map output_pair (kv # kvs)) acc = reduce_outputs (map output_pair kvs) ?acc"
    by (simp add: output_pair_def to_text_def set_prop_plain [OF k])
  from Cons.IH [OF rest, of ?acc] obtain obj where
    obj: "reduce_outputs (map output_pair kvs) ?acc = Some obj"
      "own obj = own ?acc ++ map_of (rev (map (\<lambda>kv. (fst kv, J (snd kv))) kvs))"
      "proto obj = proto ?acc"
    by blast
  have "own ?acc ++ map_of (rev (map (\<lambda>kv. (fst kv, J (snd kv))) kvs))
      = own acc ++ map_of (rev (map (\<lambda>kv. (fst kv, J (snd kv))) (kv # kvs)))"
    by (simp add: map_add_def fun_eq_iff split: option.splits)
  with step obj show ?case by simp
qed

lemma map_of_rev_J:
  "map_of (rev (map (\<lambda>kv. (fst kv, J (snd kv))) kvs)) k = map_option J (map_of (rev kvs) k)"
  by (induction kvs) (auto simp add: map_add_def split: option.splits)

lemma map_of_rev_distinct:
  "distinct (map fst kvs) \<Longrightarrow> (k, v) \<in> set kvs \<Longrightarrow> map_of (rev kvs) k = Some v"
  by (simp add: rev_map [symmetric])

text \<open>
  Claim C8, as amended. Let a deploy write an array of \<open>{OutputKey, OutputValue}\<close>
  pairs, none under the key \<open>__proto__\<close>, let the write succeed and let
  \<open>JSON.parse\<close> read back what \<open>JSON.stringify\<close> printed. Then the next
  \<open>readOutputs\<close> returns an object in which every written key holds the value of the
  last pair written under it; when the keys are distinct, every pair is read back as
  written.
\<close>

theorem outputs_round_trip_last_pair:
  assumes wr: "writeFile_error w = None"
    and rt: "JSON_parse w (JSON_stringify w (JArr (map output_pair kvs)))
               = Inr (JArr (map output_pair kvs))"
    and np: "''__proto__'' \<notin> fst ` set kvs"
  shows "\<exists>obj s'. write_then_read w (JArr (map output_pair kvs)) s = (Return obj, s') \<and>
           (\<forall>k v. map_of (rev kvs) k = Some v \<longrightarrow> get_prop obj k = J v) \<and>
           (distinct (map fst kvs) \<longrightarrow> (\<forall>(k, v) \<in> set kvs. get_prop obj k = J v))"
proof -
  let ?text = "JSON_stringify w (JArr (map output_pair kvs))"
  let ?s' = "s\<lparr>trace := trace s @ [WriteOutputs ?text], outputs_json := Content ?text\<rparr>"
  from reduce_output_pairs [OF np, of empty_object] obtain obj where
    obj: "reduce_outputs (map output_pair kvs) empty_object = Some obj"
      "own obj = own empty_object ++ map_of (rev (map (\<lambda>kv. (fst kv, J (snd kv))) kvs))"
    by blast
  have run: "write_then_read w (JArr (map output_pair kvs)) s = (Return obj, ?s')"
    by (simp add: write_then_read_def writeFileSync_def wr rt readOutputs_def readOutputs_try_def
        read_outputs_file_def prog_defs obj(1))
  have last_pair: "get_prop obj k = J v" if "map_of (rev kvs) k = Some v" for k v
    using that by (simp add: get_prop_def obj(2) map_add_def map_of_rev_J)
  have "get_prop obj k = J v" if "distinct (map fst kvs)" "(k, v) \<in> set kvs" for k v
    using last_pair [OF map_of_rev_distinct [OF that]] .
  with run last_pair show ?thesis by blast
qed

theorem outputs_round_trip_last_pair_witness:
  "\<exists>obj s'. write_then_read (echo_world (JArr (map output_pair two_outputs)))
       (JArr (map output_pair two_outputs)) fresh = (Return obj, s') \<and>
     get_prop obj ''BucketName'' = J (JStr ''my-bucket'') \<and>
     get_prop obj ''Region'' = J (JStr ''eu-west-1'')"
proof -
  have wr: "writeFile_error (echo_world (JArr (map output_pair two_outputs))) = None"
    by (simp add: echo_world_def quiet_world_def)
  have rt: "JSON_parse (echo_world (JArr (map output_pair two_outputs)))
       (JSON_stringify (echo_world (JArr (map output_pair two_outputs)))
          (JArr (map output_pair two_outputs)))
       = Inr (JArr (map output_pair two_outputs))"
    by (simp add: echo_world_def quiet_world_def)
  have np: "''__proto__'' \<notin> fst ` set two_outputs"
    by (simp add: two_outputs_def)
  have d: "distinct (map fst two_outputs)" by (simp add: two_outputs_def)
  from outputs_round_trip_last_pair [OF wr rt np, of fresh] d
  show ?thesis by (auto simp add: two_outputs_def)
qed

text \<open>
  The claim as stated fails at two inputs. When two pairs share the key \<open>Region\<close>,
  the lookup yields the value of the second pair, not that of the first. When the
  only pair has the key \<open>__proto__\<close> and a string value, nothing is stored and the
  read returns the empty object.
\<close>

theorem outputs_round_trip_counterexample:
  "(case fst (write_then_read
        (echo_world (JArr [output_pair (''Region'', JStr ''us-east-1''),
                           output_pair (''Region'', JStr ''eu-west-1'')]))
        (JArr [output_pair (''Region'', JStr ''us-east-1''),
               output_pair (''Region'', JStr ''eu-west-1'')]) fresh) of
      Return obj \<Rightarrow> get_prop obj ''Region'' | _ \<Rightarrow> Undefined) = J (JStr ''eu-west-1'') \<and>
   J (JStr ''eu-west-1'') \<noteq> J (JStr ''us-east-1'') \<and>
   fst (write_then_read
        (echo_world (JArr [output_pair (''__proto__'', JStr ''x'')]))
        (JArr [output_pair (''__proto__'', JStr ''x'')]) fresh) = Return empty_object"
  by (simp add: write_then_read_def writeFileSync_def readOutputs_def readOutputs_try_def
        read_outputs_file_def prog_defs echo_world_def quiet_world_def fresh_def output_pair_def
        to_text_def set_prop_def get_prop_def empty_object_def inherits_proto_accessor_def
        proto_setter_def)

section \<open>Facts about the deploy script\<close>

lemma executed_append [simp]: "executed (xs @ ys) = executed xs @ executed ys"
  by (induction xs rule: executed.induct) simp_all

lemma trust_accounts_truthy:
  "truthy (resolve_trustAccountOne w options prev)" "truthy (resolve_trustAccountTwo w options prev)"
  by (simp_all add: resolve_trustAccountOne_def resolve_trustAccountTwo_def or_else_def)

lemma str_includes_empty: "str_includes s []"
  by (cases s) simp_all

lemma str_includes_prefix: "str_includes (sub @ ys) sub"
proof (cases "sub @ ys")
  case Nil
  then show ?thesis by simp
next
  case (Cons a l)
  have "take (length sub) (sub @ ys) = sub" by simp
  with Cons show ?thesis by simp
qed

lemma str_includes_middle: "str_includes (xs @ sub @ ys) sub"
  by (induction xs) (simp_all add: str_includes_prefix)

lemma stack_command_literal:
  "str_includes (stack_command w operation one two r)
     ''ParameterKey=YourBucketName,ParameterValue=s3-mcp-test-bucket-12345 ''"
proof -
  have "stack_command w operation one two r =
     (''aws cloudformation '' @ operation @ '' '' @ [backslash, newline] @
      ''    --stack-name '' @ STACK_NAME @ '' '' @ [backslash, newline] @
      ''    --template-body file://'' @ template_file w @ '' '' @ [backslash, newline] @
      ''    --parameters '' @ ''        '') @
     ''ParameterKey=YourBucketName,ParameterValue=s3-mcp-test-bucket-12345 '' @
     (''        ParameterKey=TrustPolicyAccountIdOne,ParameterValue='' @ one @ '' '' @
      ''        ParameterKey=TrustPolicyAccountIdTwo,ParameterValue='' @ two @ '' '' @
      ''    --capabilities CAPABILITY_NAMED_IAM '' @ [backslash, newline] @
      ''    --region '' @ r)"
    by (simp add: stack_command_def)
  then show ?thesis by (simp only: str_includes_middle)
qed

lemma display_each_frame:
  "executed (trace (snd (display_each xs s))) = executed (trace s) \<and>
   outputs_json (snd (display_each xs s)) = outputs_json s \<and>
   (\<forall>e. fst (display_each xs s) = Throw e \<longrightarrow> e = ''TypeError'')"
proof (induction xs arbitrary: s)
  case Nil
  then show ?case by (simp add: ret_def)
next
  case (Cons x rest)
  show ?case
    using Cons.IH
    by (simp add: prog_defs split: option.splits)
qed

lemma display_outputs_frame:
  "executed (trace (snd (display_outputs d s))) = executed (trace s) \<and>
   outputs_json (snd (display_outputs d s)) = outputs_json s \<and>
   (\<forall>e. fst (display_outputs d s) = Throw e \<longrightarrow> e = ''TypeError'')"
  using display_each_frame
  by (cases d) (simp_all add: display_outputs_def prog_defs)

lemma display_outputs_result:
  assumes "display_outputs d s = (res, s')"
  shows "executed (trace s') = executed (trace s)" and "outputs_json s' = outputs_json s"
    and "res = Throw e \<Longrightarrow> e = ''TypeError''"
  using display_outputs_frame [of d s] assms by simp_all

lemma fetch_and_persist_failed:
  assumes "shell w (executed (trace s)) (outputs_command r) = Failed error"
  shows "fst (fetch_and_persist w r s) = Exit 1"
    and "executed (trace (snd (fetch_and_persist w r s))) = executed (trace s) @ [outputs_command r]"
  using assms
  by (simp_all add: fetch_and_persist_def execCommand_def prog_defs print_if_present_def split: option.splits)

lemma fetch_and_persist_unparsed:
  assumes "shell w (executed (trace s)) (outputs_command r) = Ok out" and "JSON_parse w out = Inl e"
  shows "fst (fetch_and_persist w r s) = Exit 1"
    and "executed (trace (snd (fetch_and_persist w r s))) = executed (trace s) @ [outputs_command r]"
  using assms
  by (simp_all add: fetch_and_persist_def execCommand_def prog_defs)

lemma fetch_and_persist_unwritten:
  assumes "shell w (executed (trace s)) (outputs_command r) = Ok out" and "JSON_parse w out = Inr d"
    and "writeFile_error w = Some e"
  shows "fst (fetch_and_persist w r s) = Exit 1"
    and "executed (trace (snd (fetch_and_persist w r s))) = executed (trace s) @ [outputs_command r]"
  using assms
  by (simp_all add: fetch_and_persist_def execCommand_def prog_defs writeFileSync_def)

lemma fetch_and_persist_written:
  assumes "shell w (executed (trace s)) (outputs_command r) = Ok out" and "JSON_parse w out = Inr d"
    and "writeFile_error w = None"
  shows "fetch_and_persist w r s =
     display_outputs d
       (s\<lparr>outputs_json := Content (JSON_stringify w d),
          trace := trace s @
           [Log ''[DEPLOY] Getting stack outputs...'', Exec (outputs_command r),
            WriteOutputs (JSON_stringify w d),
            Log (''[DEPLOY] Stack outputs written to: '' @ outputs_file w)]\<rparr>)"
  using assms
  by (simp add: fetch_and_persist_def execCommand_def prog_defs writeFileSync_def)

lemma fetch_and_persist_commands:
  "executed (trace (snd (fetch_and_persist w r s))) = executed (trace s) @ [outputs_command r] \<and>
   (\<forall>e. fst (fetch_and_persist w r s) = Throw e \<longrightarrow> e = ''TypeError'')"
proof (cases "shell w (executed (trace s)) (outputs_command r)")
  case (Failed error)
  from fetch_and_persist_failed [OF this] show ?thesis by simp
next
  case (Ok out)
  show ?thesis
  proof (cases "JSON_parse w out")
    case (Inl e)
    from fetch_and_persist_unparsed [OF Ok this] show ?thesis by simp
  next
    case (Inr d)
    show ?thesis
    proof (cases "writeFile_error w")
      case (Some e)
      from fetch_and_persist_unwritten [OF Ok Inr this] show ?thesis by simp
    next
      case None
      show ?thesis
        unfolding fetch_and_persist_written [OF Ok Inr None]
        using display_outputs_frame [of d] by (simp add:)
    qed
  qed
qed

lemma fetch_and_persist_writes:
  assumes "shell w (executed (trace s)) (outputs_command r) = Ok out"
    and "JSON_parse w out = Inr d" and "writeFile_error w = None"
  shows "outputs_json (snd (fetch_and_persist w r s)) = Content (JSON_stringify w d)"
  unfolding fetch_and_persist_written [OF assms]
  using display_outputs_frame [of d] by simp

lemma run_stack_operation_commands:
  "\<exists>cmds. executed (trace (snd (run_stack_operation w ex c r s))) = executed (trace s) @ c # cmds \<and>
     (cmds = [] \<or> cmds = [wait_command (if ex then ''stack-update-complete'' else ''stack-create-complete'') r]) \<and>
     (\<forall>e. fst (run_stack_operation w ex c r s) \<noteq> Throw e) \<and>
     outputs_json (snd (run_stack_operation w ex c r s)) = outputs_json s"
proof (cases "shell w (executed (trace s)) c")
  case (Ok out)
  then show ?thesis
    by (cases "shell w (executed (trace s) @ [c])
                 (wait_command (if ex then ''stack-update-complete'' else ''stack-create-complete'') r)")
       (simp_all add: run_stack_operation_def execCommandSafe_def execCommand_def prog_defs
          print_if_present_def split: option.splits)
next
  case (Failed error)
  then show ?thesis
    by (simp add: run_stack_operation_def execCommandSafe_def prog_defs
        print_if_present_def split: option.splits)
qed

lemma run_stack_operation_other_failure:
  assumes "shell w (executed (trace s)) c = Failed error"
    and "\<not> (\<exists>t. stderr error = Some t \<and> str_includes t ''No updates are to be performed'')"
  shows "fst (run_stack_operation w ex c r s) = Exit 1 \<and>
     executed (trace (snd (run_stack_operation w ex c r s))) = executed (trace s) @ [c] \<and>
     outputs_json (snd (run_stack_operation w ex c r s)) = outputs_json s"
  using assms
  by (simp add: run_stack_operation_def execCommandSafe_def prog_defs
      print_if_present_def split: option.splits)

lemma display_each_grows: "prefix (trace s) (trace (snd (display_each xs s)))"
proof (induction xs arbitrary: s)
  case Nil
  then show ?case by (simp add: ret_def)
next
  case (Cons x rest)
  have "prefix (trace s) (trace (snd (display_each rest (s\<lparr>trace := trace s @ [l]\<rparr>))))" for l
    using Cons.IH [of "s\<lparr>trace := trace s @ [l]\<rparr>"] by (auto dest: append_prefixD)
  then show ?case
    by (simp add: prog_defs split: option.splits)
qed

lemma display_outputs_grows: "prefix (trace s) (trace (snd (display_outputs d s)))"
proof -
  have "prefix (trace s) (trace (snd (display_each xs (s\<lparr>trace := trace s @ [l]\<rparr>))))" for l xs
    using display_each_grows [of "s\<lparr>trace := trace s @ [l]\<rparr>" xs] by (auto dest: append_prefixD)
  then show ?thesis
    by (cases d) (simp_all add: display_outputs_def prog_defs)
qed

lemma fetch_and_persist_grows: "prefix (trace s) (trace (snd (fetch_and_persist w r s)))"
proof (cases "shell w (executed (trace s)) (outputs_command r)")
  case (Failed error)
  then show ?thesis
    by (simp add: fetch_and_persist_def execCommand_def prog_defs print_if_present_def
        split: option.splits)
next
  case (Ok out)
  show ?thesis
  proof (cases "JSON_parse w out")
    case (Inl e)
    with Ok show ?thesis by (simp add: fetch_and_persist_def execCommand_def prog_defs)
  next
    case (Inr d)
    show ?thesis
    proof (cases "writeFile_error w")
      case (Some e)
      with Ok Inr show ?thesis
        by (simp add: fetch_and_persist_def execCommand_def prog_defs writeFileSync_def)
    next
      case None
      show ?thesis
        unfolding fetch_and_persist_written [OF Ok Inr None]
        using display_outputs_grows [of "s\<lparr>outputs_json := Content (JSON_stringify w d),
          trace := trace s @
           [Log ''[DEPLOY] Getting stack outputs...'', Exec (outputs_command r),
            WriteOutputs (JSON_stringify w d),
            Log (''[DEPLOY] Stack outputs written to: '' @ outputs_file w)]\<rparr>" d]
        by (auto dest: append_prefixD)
    qed
  qed
qed

lemma run_stack_operation_grows:
  "prefix (trace s) (trace (snd (run_stack_operation w ex c r s)))"
proof (cases "shell w (executed (trace s)) c")
  case (Ok out)
  then show ?thesis
    by (cases "shell w (executed (trace s) @ [c])
                 (wait_command (if ex then ''stack-update-complete'' else ''stack-create-complete'') r)")
       (simp_all add: run_stack_operation_def execCommandSafe_def execCommand_def prog_defs
          print_if_present_def split: option.splits)
next
  case (Failed error)
  then show ?thesis
    by (simp add: run_stack_operation_def execCommandSafe_def prog_defs
        print_if_present_def split: option.splits)
qed

lemma deployStack_stops_early:
  assumes prev: "readOutputs w s = (Return prev, s)"
    and none: "to_text (resolve_bucketName w options prev) = None \<or>
               to_text (resolve_region w options prev) = None \<or>
               to_text (resolve_trustAccountOne w options prev) = None \<or>
               to_text (resolve_trustAccountTwo w options prev) = None"
  shows "fst (deployStack w options s) = Throw ''TypeError''"
    and "executed (trace (snd (deployStack w options s))) = executed (trace s)"
  using none
  by (auto simp add: deployStack_def prev prog_defs Let_def split: option.splits)

lemma and_then_run:
  "and_then m k s =
     (case fst (m s) of
        Return x \<Rightarrow> k (snd (m s))
      | Exit n \<Rightarrow> (Exit n, snd (m s))
      | Throw e \<Rightarrow> (Throw e, snd (m s))
      | Unmodelled \<Rightarrow> (Unmodelled, snd (m s)))"
  by (simp add: and_then_def seq_def split: prod.splits result.splits)

lemma deployStack_reaches_operation:
  assumes prev: "readOutputs w s = (Return prev, s)"
    and b: "to_text (resolve_bucketName w options prev) = Some b"
    and r: "to_text (resolve_region w options prev) = Some r"
    and one: "to_text (resolve_trustAccountOne w options prev) = Some one"
    and two: "to_text (resolve_trustAccountTwo w options prev) = Some two"
    and ex: "ex = (case shell w (executed (trace s)) (describe_stacks STACK_NAME r) of
                     Ok _ \<Rightarrow> True | Failed _ \<Rightarrow> False)"
  shows "\<exists>evs. executed evs = [] \<and> Log (''[DEPLOY] Using bucket name: '' @ b) \<in> set evs \<and>
     deployStack w options s =
       and_then
         (run_stack_operation w ex
            (stack_command w (if ex then ''update-stack'' else ''create-stack'') one two r) r)
         (fetch_and_persist w r)
         (s\<lparr>trace := trace s @ evs @ [Exec (describe_stacks STACK_NAME r)]\<rparr>)"
proof -
  let ?evs = "[LogObject prev,
               Log (''[DEPLOY] Deploying stack: '' @ STACK_NAME),
               Log (''[DEPLOY] Using bucket name: '' @ b),
               Log (''[DEPLOY] Using region: '' @ r),
               Log rule_line,
               Log ''[DEPLOY] Vendia Trust Relationship AWS Accounts:'',
               Log (''[DEPLOY] Using trust account one: '' @ one),
               Log (''[DEPLOY] Using trust account two: '' @ two),
               Log ''https://docs.vendia.com/platform/vendia-mcp-server/storage-connections/'',
               Log rule_line,
               Log (''[DEPLOY] Using template: '' @ template_file w)]"
  have "deployStack w options s =
       and_then
         (run_stack_operation w ex
            (stack_command w (if ex then ''update-stack'' else ''create-stack'') one two r) r)
         (fetch_and_persist w r)
         (s\<lparr>trace := trace s @ ?evs @ [Exec (describe_stacks STACK_NAME r)]\<rparr>)"
    by (simp add: deployStack_def prev b r one two ex trust_accounts_truthy stackExists_def Let_def
        ret_def seq_def and_then_def emit_def console_log_def template_def log_def execSync_def)
  moreover have "executed ?evs = []" by simp
  moreover have "Log (''[DEPLOY] Using bucket name: '' @ b) \<in> set ?evs" by simp
  ultimately show ?thesis by blast
qed

lemma deployStack_run:
  obtains (early) prev where "readOutputs w s = (Return prev, s)"
      and "fst (deployStack w options s) = Throw ''TypeError''"
      and "commands_run (deployStack w options) s = []"
  | (operated) prev b r one two ex tail where "readOutputs w s = (Return prev, s)"
      and "to_text (resolve_bucketName w options prev) = Some b"
      and "to_text (resolve_region w options prev) = Some r"
      and "to_text (resolve_trustAccountOne w options prev) = Some one"
      and "to_text (resolve_trustAccountTwo w options prev) = Some two"
      and "commands_run (deployStack w options) s =
             describe_stacks STACK_NAME r #
             stack_command w (if ex then ''update-stack'' else ''create-stack'') one two r # tail"
      and "set tail \<subseteq> {wait_command (if ex then ''stack-update-complete'' else ''stack-create-complete'') r,
                          outputs_command r}"
      and "Log (''[DEPLOY] Using bucket name: '' @ b) \<in> set (trace (snd (deployStack w options s)))"
      and "\<forall>e. fst (deployStack w options s) = Throw e \<longrightarrow> e = ''TypeError''"
proof -
  obtain prev where prev: "readOutputs w s = (Return prev, s)"
    using readOutputs_returns by blast
  show thesis
  proof (cases "to_text (resolve_bucketName w options prev) = None \<or>
               to_text (resolve_region w options prev) = None \<or>
               to_text (resolve_trustAccountOne w options prev) = None \<or>
               to_text (resolve_trustAccountTwo w options prev) = None")
    case True
    from deployStack_stops_early [OF prev True] show thesis
      by (intro early [OF prev]) (simp_all add: commands_run_def)
  next
    case False
    then obtain b r one two where
      texts: "to_text (resolve_bucketName w options prev) = Some b"
        "to_text (resolve_region w options prev) = Some r"
        "to_text (resolve_trustAccountOne w options prev) = Some one"
        "to_text (resolve_trustAccountTwo w options prev) = Some two"
      by auto
    define ex where "ex = (case shell w (executed (trace s)) (describe_stacks STACK_NAME r) of
                     Ok _ \<Rightarrow> True | Failed _ \<Rightarrow> False)"
    define c where "c = stack_command w (if ex then ''update-stack'' else ''create-stack'') one two r"
    from deployStack_reaches_operation [OF prev texts ex_def] obtain evs where
      evs: "executed evs = []" "Log (''[DEPLOY] Using bucket name: '' @ b) \<in> set evs"
      and run: "deployStack w options s =
         and_then (run_stack_operation w ex c r) (fetch_and_persist w r)
           (s\<lparr>trace := trace s @ evs @ [Exec (describe_stacks STACK_NAME r)]\<rparr>)"
      unfolding c_def by blast
    define s1 where "s1 = s\<lparr>trace := trace s @ evs @ [Exec (describe_stacks STACK_NAME r)]\<rparr>"
    define s2 where "s2 = snd (run_stack_operation w ex c r s1)"
    from run_stack_operation_commands [of w ex c r s1] obtain cmds where
      cmds: "executed (trace s2) = executed (trace s1) @ c # cmds"
        "cmds = [] \<or> cmds = [wait_command (if ex then ''stack-update-complete'' else ''stack-create-complete'') r]"
        "\<forall>e. fst (run_stack_operation w ex c r s1) \<noteq> Throw e"
      unfolding s2_def by blast
    have s1: "executed (trace s1) = executed (trace s) @ [describe_stacks STACK_NAME r]"
      by (simp add: s1_def evs)
    have in1: "Log (''[DEPLOY] Using bucket name: '' @ b) \<in> set (trace s1)"
      using evs(2) by (simp add: s1_def)
    have in2: "Log (''[DEPLOY] Using bucket name: '' @ b) \<in> set (trace s2)"
      using in1 run_stack_operation_grows [of s1 w ex c r] set_mono_prefix unfolding s2_def by blast
    show thesis
    proof (cases "fst (run_stack_operation w ex c r s1)")
      case (Return x)
      then have fin: "deployStack w options s = fetch_and_persist w r s2"
        by (simp add: run s1_def [symmetric] and_then_run s2_def)
      have "executed (trace (snd (deployStack w options s)))
              = executed (trace s) @ describe_stacks STACK_NAME r # c # (cmds @ [outputs_command r])"
        using fetch_and_persist_commands [of w r s2] by (simp add: fin cmds s1)
      moreover have "Log (''[DEPLOY] Using bucket name: '' @ b) \<in> set (trace (snd (deployStack w options s)))"
        using in2 fetch_and_persist_grows [of s2 w r] set_mono_prefix unfolding fin by blast
      moreover have "\<forall>e. fst (deployStack w options s) = Throw e \<longrightarrow> e = ''TypeError''"
        using fetch_and_persist_commands [of w r s2] by (simp add: fin)
      moreover have "set (cmds @ [outputs_command r])
          \<subseteq> {wait_command (if ex then ''stack-update-complete'' else ''stack-create-complete'') r,
              outputs_command r}"
        using cmds(2) by auto
      ultimately show thesis
        using operated [OF prev texts, of ex "cmds @ [outputs_command r]"]
        by (simp add: commands_run_def c_def)
    next
      case (Exit n)
      then have fin: "deployStack w options s = (Exit n, s2)"
        by (simp add: run s1_def [symmetric] and_then_run s2_def)
      have "set cmds \<subseteq> {wait_command (if ex then ''stack-update-complete'' else ''stack-create-complete'') r,
              outputs_command r}"
        using cmds(2) by auto
      then show thesis
        using operated [OF prev texts, of ex cmds] in2 by (simp add: commands_run_def fin cmds s1 c_def)
    next
      case (Throw e)
      with cmds(3) show thesis by simp
    next
      case Unmodelled
      then have fin: "deployStack w options s = (Unmodelled, s2)"
        by (simp add: run s1_def [symmetric] and_then_run s2_def)
      have "set cmds \<subseteq> {wait_command (if ex then ''stack-update-complete'' else ''stack-create-complete'') r,
              outputs_command r}"
        using cmds(2) by auto
      then show thesis
        using operated [OF prev texts, of ex cmds] in2 by (simp add: commands_run_def fin cmds s1 c_def)
    qed
  qed
qed

lemma other_commands_are_no_stack_operation:
  "\<not> starts_with (describe_stacks n r) ''aws cloudformation create-stack''"
  "\<not> starts_with (describe_stacks n r) ''aws cloudformation update-stack''"
  "\<not> starts_with (wait_command k r) ''aws cloudformation create-stack''"
  "\<not> starts_with (wait_command k r) ''aws cloudformation update-stack''"
  "\<not> starts_with (outputs_command r) ''aws cloudformation create-stack''"
  "\<not> starts_with (outputs_command r) ''aws cloudformation update-stack''"
  by (simp_all add: starts_with_def describe_stacks_def wait_command_def outputs_command_def)

lemma display_each_pairs:
  "display_each (map (\<lambda>kv. output_pair (fst kv, JStr (snd kv))) kvs) s =
     (Return (), s\<lparr>trace := trace s @ map (\<lambda>kv. Log (fst kv @ '': '' @ snd kv)) kvs\<rparr>)"
  by (induction kvs arbitrary: s) (simp_all add: output_pair_def to_text_def prog_defs)

lemma display_outputs_pairs:
  "display_outputs (JArr (map (\<lambda>kv. output_pair (fst kv, JStr (snd kv))) kvs)) s =
     (Return (), s\<lparr>trace := trace s @
        Log ([CHR 0x5C] @ ''nStack Outputs:'') #
        (if kvs = [] then [Log ''No outputs found'']
         else map (\<lambda>kv. Log (fst kv @ '': '' @ snd kv)) kvs)\<rparr>)"
  by (simp add: display_outputs_def display_each_pairs backslash_def prog_defs)

lemma run_stack_operation_no_updates_run:
  assumes "shell w (executed (trace s)) c = Failed error"
    and "stderr error = Some t" and "str_includes t ''No updates are to be performed''"
  shows "run_stack_operation w ex c r s =
    (Return (), s\<lparr>trace := trace s @
       [Log (''[DEPLOY] '' @ (if ex then ''Updating'' else ''Creating'') @ '' CloudFormation stack...''),
        Exec c,
        Log ''[DEPLOY] No updates are needed - stack is already up to date!'']\<rparr>)"
proof -
  from assms(3) have "t \<noteq> []" by auto
  with assms show ?thesis
    by (simp add: run_stack_operation_def execCommandSafe_def prog_defs)
qed

lemma deployStack_operation_run:
  assumes prev: "readOutputs w s = (Return prev, s)"
    and b: "to_text (resolve_bucketName w options prev) = Some b"
    and r: "to_text (resolve_region w options prev) = Some r"
    and one: "to_text (resolve_trustAccountOne w options prev) = Some one"
    and two: "to_text (resolve_trustAccountTwo w options prev) = Some two"
    and ex: "ex = (case shell w (executed (trace s)) (describe_stacks STACK_NAME r) of
                     Ok _ \<Rightarrow> True | Failed _ \<Rightarrow> False)"
  shows "deployStack w options s =
       and_then
         (run_stack_operation w ex
            (stack_command w (if ex then ''update-stack'' else ''create-stack'') one two r) r)
         (fetch_and_persist w r)
         (s\<lparr>trace := trace s @
              [LogObject prev,
               Log (''[DEPLOY] Deploying stack: '' @ STACK_NAME),
               Log (''[DEPLOY] Using bucket name: '' @ b),
               Log (''[DEPLOY] Using region: '' @ r),
               Log rule_line,
               Log ''[DEPLOY] Vendia Trust Relationship AWS Accounts:'',
               Log (''[DEPLOY] Using trust account one: '' @ one),
               Log (''[DEPLOY] Using trust account two: '' @ two),
               Log ''https://docs.vendia.com/platform/vendia-mcp-server/storage-connections/'',
               Log rule_line,
               Log (''[DEPLOY] Using template: '' @ template_file w),
               Exec (describe_stacks STACK_NAME r)]\<rparr>)"
  by (simp add: deployStack_def prev b r one two ex trust_accounts_truthy stackExists_def Let_def
      ret_def seq_def and_then_def emit_def console_log_def template_def log_def execSync_def)

lemma resolved_trust_account_strings:
  "get_prop prev ''TrustPolicyAccountIdOne'' = Undefined \<or>
     (\<exists>t. get_prop prev ''TrustPolicyAccountIdOne'' = J (JStr t)) \<Longrightarrow>
   \<exists>t. t \<noteq> [] \<and> resolve_trustAccountOne w options prev = J (JStr t)"
  "get_prop prev ''TrustPolicyAccountIdTwo'' = Undefined \<or>
     (\<exists>t. get_prop prev ''TrustPolicyAccountIdTwo'' = J (JStr t)) \<Longrightarrow>
   \<exists>t. t \<noteq> [] \<and> resolve_trustAccountTwo w options prev = J (JStr t)"
  by (auto simp add: resolve_trustAccountOne_def resolve_trustAccountTwo_def or_else_def str_val_def
      split: option.splits)

lemma resolved_trust_account_defaults:
  "\<not> truthy (str_val (trustAccountOne options)) \<and>
   \<not> truthy (str_val (env w ''TRUST_ACCOUNT_ONE'')) \<and>
   \<not> truthy (get_prop prev ''TrustPolicyAccountIdOne'') \<Longrightarrow>
     resolve_trustAccountOne w options prev = J (JStr ''690332314549'')"
  "\<not> truthy (str_val (trustAccountTwo options)) \<and>
   \<not> truthy (str_val (env w ''TRUST_ACCOUNT_TWO'')) \<and>
   \<not> truthy (get_prop prev ''TrustPolicyAccountIdTwo'') \<Longrightarrow>
     resolve_trustAccountTwo w options prev = J (JStr ''332134949057'')"
  by (simp_all add: resolve_trustAccountOne_def resolve_trustAccountTwo_def or_else_def)

lemmas world_defs = quiet_world_def echo_world_def deploy_world_def fresh_def

lemmas deploy_defs = main_deploy_def parseArgs_def default_options_def checkAWSCLI_def
  checkAWSCredentials_def deployStack_def readOutputs_def readOutputs_try_def read_outputs_file_def
  str_val_def resolve_bucketName_def resolve_region_def resolve_trustAccountOne_def
  resolve_trustAccountTwo_def or_else_def get_prop_def empty_object_def to_text_def stackExists_def
  run_stack_operation_def fetch_and_persist_def execCommand_def execCommandSafe_def Let_def
  print_if_present_def writeFileSync_def display_outputs_def

section \<open>Option resolution in deploy\<close>

text \<open>
  Claim C1, evaluated where the code departs from it. A deploy is invoked with no
  flag while \<open>AWS_DEFAULT_REGION\<close> is \<open>eu-west-1\<close> and no outputs are persisted.
  \<open>parseArgs\<close> has already put \<open>us-east-1\<close> into \<open>options.region\<close>, so the chain
  in \<open>deployStack\<close> stops at its first link: the region is \<open>us-east-1\<close>, and every
  command of the run carries it. The bucket name has no fourth link: with nothing
  supplied it resolves to \<open>undefined\<close>.
\<close>

theorem region_default_shadows_environment:
  "fst (parseArgs env_region_world fresh) = Return default_options \<and>
   resolve_region env_region_world default_options empty_object = J (JStr ''us-east-1'') \<and>
   resolve_bucketName env_region_world default_options empty_object = Undefined \<and>
   commands_run (main_deploy env_region_world) fresh =
     [''aws --version'', ''aws sts get-caller-identity'',
      describe_stacks STACK_NAME ''us-east-1'',
      stack_command env_region_world ''update-stack'' ''690332314549'' ''332134949057'' ''us-east-1'',
      wait_command ''stack-update-complete'' ''us-east-1'',
      outputs_command ''us-east-1'']"
  by (simp add: env_region_world_def world_defs deploy_defs prog_defs commands_run_def)

text \<open>
  The same holds at every input: when no \<open>--region\<close> flag is passed, the options
  that \<open>parseArgs\<close> returns make the region resolve to \<open>us-east-1\<close>, whatever the
  environment and the persisted outputs hold.
\<close>

lemma parseArgs_loop_keeps_region:
  "''--region'' \<notin> set args \<Longrightarrow> parseArgs_loop args opts s = (Return options, s') \<Longrightarrow>
   region options = region opts"
proof (induction args arbitrary: opts s rule: length_induct)
  case (1 args)
  have ih: "region options = region opts'"
    if "length ys < length args" "''--region'' \<notin> set ys"
      "parseArgs_loop ys opts' s = (Return options, s')" for ys opts'
    using "1.IH" that by blast
  show ?case
  proof (cases args)
    case Nil
    with "1.prems" show ?thesis by (auto simp add: ret_def)
  next
    case (Cons arg rest)
    with "1.prems" have arg: "arg \<noteq> ''--region''" and rest: "''--region'' \<notin> set rest"
      and run: "parseArgs_loop (arg # rest) opts s = (Return options, s')"
      by auto
    have shorter: "length rest < length args" by (simp add: Cons)
    show ?thesis
    proof (cases rest)
      case Nil
      with run arg ih [OF shorter rest] show ?thesis
        by (auto simp add: prog_defs split: if_splits)
    next
      case (Cons v rest')
      have "length rest' < length args" "''--region'' \<notin> set rest'"
        using shorter rest Cons by simp_all
      note ih' = ih [OF this]
      have "region options = region (opts\<lparr>bucketName := Some v\<rparr>)"
        if "parseArgs_loop rest' (opts\<lparr>bucketName := Some v\<rparr>) s = (Return options, s')"
        using ih' that by blast
      moreover have "region options = region (opts\<lparr>trustAccountOne := Some v\<rparr>)"
        if "parseArgs_loop rest' (opts\<lparr>trustAccountOne := Some v\<rparr>) s = (Return options, s')"
        using ih' that by blast
      moreover have "region options = region (opts\<lparr>trustAccountTwo := Some v\<rparr>)"
        if "parseArgs_loop rest' (opts\<lparr>trustAccountTwo := Some v\<rparr>) s = (Return options, s')"
        using ih' that by blast
      moreover have "region options = region opts"
        if "parseArgs_loop (v # rest') opts s = (Return options, s')"
        using ih [OF shorter rest] that Cons by blast
      ultimately show ?thesis
        using run arg Cons
        by (simp add: prog_defs split: if_splits del: parseArgs_loop.simps
            add: parseArgs_loop.simps(2) [of arg "v # rest'"])
    qed
  qed
qed

theorem region_without_flag_is_default:
  assumes "''--region'' \<notin> set (argv w)"
    and "parseArgs w s = (Return options, s')"
  shows "resolve_region w options prev = J (JStr ''us-east-1'')"
proof -
  obtain res s1 where loop: "parseArgs_loop (argv w) default_options s = (res, s1)"
    by (cases "parseArgs_loop (argv w) default_options s")
  with assms(2) have "res = Return options"
    by (auto simp add: parseArgs_def prog_defs split: result.splits if_splits)
  with loop parseArgs_loop_keeps_region [OF assms(1), of default_options s options s1]
  have "region options = Some ''us-east-1''"
    by (simp add: default_options_def)
  then show ?thesis
    by (simp add: resolve_region_def or_else_def str_val_def)
qed

theorem region_without_flag_is_default_witness:
  "''--region'' \<notin> set (argv env_region_world) \<and>
   parseArgs env_region_world fresh = (Return default_options, fresh) \<and>
   env env_region_world ''AWS_DEFAULT_REGION'' = Some ''eu-west-1'' \<and>
   resolve_region env_region_world default_options empty_object = J (JStr ''us-east-1'')"
proof -
  have a: "''--region'' \<notin> set (argv env_region_world)"
    and b: "parseArgs env_region_world fresh = (Return default_options, fresh)"
    and c: "env env_region_world ''AWS_DEFAULT_REGION'' = Some ''eu-west-1''"
    by (simp_all add: env_region_world_def world_defs parseArgs_def default_options_def str_val_def
        prog_defs)
  from region_without_flag_is_default [OF a b, of empty_object] a b c
  show ?thesis by simp
qed

section \<open>The trust-account identifiers\<close>

text \<open>
  Claim C5, as amended. In every deploy both resolved trust-account identifiers are
  truthy, because each chain ends in a hard-coded account id: the check
  \<open>!trustAccountOne || !trustAccountTwo\<close> never fires and \<open>deployStack\<close> never throws
  its validation error. An identifier whose flag, environment variable and persisted
  value are all missing or falsy is its default. When the persisted value is a string
  or missing, the resolved identifier is a non-empty string. Every create-stack or
  update-stack command of the run carries the texts of the two resolved identifiers
  as its two trust parameters.
\<close>

theorem trust_accounts_never_fail_validation:
  assumes prev: "readOutputs w s = (Return prev, s)"
  shows "truthy (resolve_trustAccountOne w options prev) \<and>
         truthy (resolve_trustAccountTwo w options prev) \<and>
         fst (deployStack w options s) \<noteq> Throw ''AWS account IDs for Trusted Relationships are required'' \<and>
         (\<not> truthy (str_val (trustAccountOne options)) \<and>
          \<not> truthy (str_val (env w ''TRUST_ACCOUNT_ONE'')) \<and>
          \<not> truthy (get_prop prev ''TrustPolicyAccountIdOne'') \<longrightarrow>
            resolve_trustAccountOne w options prev = J (JStr ''690332314549'')) \<and>
         (\<not> truthy (str_val (trustAccountTwo options)) \<and>
          \<not> truthy (str_val (env w ''TRUST_ACCOUNT_TWO'')) \<and>
          \<not> truthy (get_prop prev ''TrustPolicyAccountIdTwo'') \<longrightarrow>
            resolve_trustAccountTwo w options prev = J (JStr ''332134949057'')) \<and>
         (get_prop prev ''TrustPolicyAccountIdOne'' = Undefined \<or>
            (\<exists>t. get_prop prev ''TrustPolicyAccountIdOne'' = J (JStr t)) \<longrightarrow>
            (\<exists>t. t \<noteq> [] \<and> resolve_trustAccountOne w options prev = J (JStr t))) \<and>
         (get_prop prev ''TrustPolicyAccountIdTwo'' = Undefined \<or>
            (\<exists>t. get_prop prev ''TrustPolicyAccountIdTwo'' = J (JStr t)) \<longrightarrow>
            (\<exists>t. t \<noteq> [] \<and> resolve_trustAccountTwo w options prev = J (JStr t))) \<and>
         (\<forall>c \<in> set (commands_run (deployStack w options) s).
            starts_with c ''aws cloudformation create-stack'' \<or>
            starts_with c ''aws cloudformation update-stack'' \<longrightarrow>
              (\<exists>operation one two r.
                 to_text (resolve_trustAccountOne w options prev) = Some one \<and>
                 to_text (resolve_trustAccountTwo w options prev) = Some two \<and>
                 c = ''aws cloudformation '' @ operation @ '' '' @ [CHR 0x5C, CHR 0x0A] @
                     ''    --stack-name s3-mcp-infrastructure '' @ [CHR 0x5C, CHR 0x0A] @
                     ''    --template-body file://'' @ template_file w @ '' '' @ [CHR 0x5C, CHR 0x0A] @
                     ''    --parameters '' @
                     ''        ParameterKey=YourBucketName,ParameterValue=s3-mcp-test-bucket-12345 '' @
                     ''        ParameterKey=TrustPolicyAccountIdOne,ParameterValue='' @ one @ '' '' @
                     ''        ParameterKey=TrustPolicyAccountIdTwo,ParameterValue='' @ two @ '' '' @
                     ''    --capabilities CAPABILITY_NAMED_IAM '' @ [CHR 0x5C, CHR 0x0A] @
                     ''    --region '' @ r))"
proof -
  have unthrown: "fst (deployStack w options s) \<noteq> Throw ''AWS account IDs for Trusted Relationships are required''"
    by (rule deployStack_run [of w s options]) auto
  have carried: "\<exists>operation one two r.
                 to_text (resolve_trustAccountOne w options prev) = Some one \<and>
                 to_text (resolve_trustAccountTwo w options prev) = Some two \<and>
                 c = ''aws cloudformation '' @ operation @ '' '' @ [CHR 0x5C, CHR 0x0A] @
                     ''    --stack-name s3-mcp-infrastructure '' @ [CHR 0x5C, CHR 0x0A] @
                     ''    --template-body file://'' @ template_file w @ '' '' @ [CHR 0x5C, CHR 0x0A] @
                     ''    --parameters '' @
                     ''        ParameterKey=YourBucketName,ParameterValue=s3-mcp-test-bucket-12345 '' @
                     ''        ParameterKey=TrustPolicyAccountIdOne,ParameterValue='' @ one @ '' '' @
                     ''        ParameterKey=TrustPolicyAccountIdTwo,ParameterValue='' @ two @ '' '' @
                     ''    --capabilities CAPABILITY_NAMED_IAM '' @ [CHR 0x5C, CHR 0x0A] @
                     ''    --region '' @ r"
    if c: "c \<in> set (commands_run (deployStack w options) s)"
      and op: "starts_with c ''aws cloudformation create-stack'' \<or>
               starts_with c ''aws cloudformation update-stack''" for c
  proof (rule deployStack_run [of w s options])
    fix prev'
    assume "commands_run (deployStack w options) s = []"
    with c show ?thesis by simp
  next
    fix prev' b r one two ex tail
    assume prev': "readOutputs w s = (Return prev', s)"
      and texts: "to_text (resolve_trustAccountOne w options prev') = Some one"
        "to_text (resolve_trustAccountTwo w options prev') = Some two"
      and cmds: "commands_run (deployStack w options) s =
             describe_stacks STACK_NAME r #
             stack_command w (if ex then ''update-stack'' else ''create-stack'') one two r # tail"
      and tail: "set tail \<subseteq> {wait_command (if ex then ''stack-update-complete'' else ''stack-create-complete'') r,
                          outputs_command r}"
    from prev prev' have same: "prev' = prev" by simp
    from c cmds tail have "c = describe_stacks STACK_NAME r \<or>
        c = stack_command w (if ex then ''update-stack'' else ''create-stack'') one two r \<or>
        c = wait_command (if ex then ''stack-update-complete'' else ''stack-create-complete'') r \<or>
        c = outputs_command r"
      by auto
    with op have "c = stack_command w (if ex then ''update-stack'' else ''create-stack'') one two r"
      using other_commands_are_no_stack_operation by blast
    then have "c = ''aws cloudformation '' @ (if ex then ''update-stack'' else ''create-stack'') @ '' '' @
                     [CHR 0x5C, CHR 0x0A] @
                     ''    --stack-name s3-mcp-infrastructure '' @ [CHR 0x5C, CHR 0x0A] @
                     ''    --template-body file://'' @ template_file w @ '' '' @ [CHR 0x5C, CHR 0x0A] @
                     ''    --parameters '' @
                     ''        ParameterKey=YourBucketName,ParameterValue=s3-mcp-test-bucket-12345 '' @
                     ''        ParameterKey=TrustPolicyAccountIdOne,ParameterValue='' @ one @ '' '' @
                     ''        ParameterKey=TrustPolicyAccountIdTwo,ParameterValue='' @ two @ '' '' @
                     ''    --capabilities CAPABILITY_NAMED_IAM '' @ [CHR 0x5C, CHR 0x0A] @
                     ''    --region '' @ r"
      by (simp add: stack_command_def STACK_NAME_def backslash_def newline_def)
    with texts show ?thesis unfolding same by blast
  qed
  from trust_accounts_truthy [of w options prev] unthrown
    resolved_trust_account_defaults [of options w prev]
    resolved_trust_account_strings [of prev w options] carried
  show ?thesis by blast
qed

theorem trust_accounts_never_fail_validation_witness:
  "resolve_trustAccountOne empty_trust_world
       (default_options\<lparr>trustAccountOne := Some [], trustAccountTwo := Some []\<rparr>) empty_object
     = J (JStr ''690332314549'') \<and>
   resolve_trustAccountTwo empty_trust_world
       (default_options\<lparr>trustAccountOne := Some [], trustAccountTwo := Some []\<rparr>) empty_object
     = J (JStr ''332134949057'') \<and>
   fst (deployStack empty_trust_world
       (default_options\<lparr>trustAccountOne := Some [], trustAccountTwo := Some []\<rparr>) fresh) = Return () \<and>
   commands_run (deployStack empty_trust_world
       (default_options\<lparr>trustAccountOne := Some [], trustAccountTwo := Some []\<rparr>)) fresh =
     [''aws cloudformation describe-stacks --stack-name s3-mcp-infrastructure --region us-east-1'',
      ''aws cloudformation update-stack '' @ [CHR 0x5C, CHR 0x0A] @
      ''    --stack-name s3-mcp-infrastructure '' @ [CHR 0x5C, CHR 0x0A] @
      ''    --template-body file:///repo/stack.yml '' @ [CHR 0x5C, CHR 0x0A] @
      ''    --parameters '' @
      ''        ParameterKey=YourBucketName,ParameterValue=s3-mcp-test-bucket-12345 '' @
      ''        ParameterKey=TrustPolicyAccountIdOne,ParameterValue=690332314549 '' @
      ''        ParameterKey=TrustPolicyAccountIdTwo,ParameterValue=332134949057 '' @
      ''    --capabilities CAPABILITY_NAMED_IAM '' @ [CHR 0x5C, CHR 0x0A] @
      ''    --region us-east-1'',
      ''aws cloudformation wait stack-update-complete --stack-name s3-mcp-infrastructure --region us-east-1'',
      ''aws cloudformation describe-stacks --stack-name s3-mcp-infrastructure --query '' @ [CHR 0x27] @
        ''Stacks[0].Outputs'' @ [CHR 0x27] @ '' --output json --region us-east-1'']"
proof -
  let ?options = "default_options\<lparr>trustAccountOne := Some [], trustAccountTwo := Some []\<rparr>"
  have prev: "readOutputs empty_trust_world fresh = (Return empty_object, fresh)"
    by (simp add: empty_trust_world_def world_defs readOutputs_def readOutputs_try_def
        read_outputs_file_def prog_defs)
  have none: "\<not> truthy (str_val (trustAccountOne ?options)) \<and>
      \<not> truthy (str_val (env empty_trust_world ''TRUST_ACCOUNT_ONE'')) \<and>
      \<not> truthy (get_prop empty_object ''TrustPolicyAccountIdOne'')"
    "\<not> truthy (str_val (trustAccountTwo ?options)) \<and>
      \<not> truthy (str_val (env empty_trust_world ''TRUST_ACCOUNT_TWO'')) \<and>
      \<not> truthy (get_prop empty_object ''TrustPolicyAccountIdTwo'')"
    by (simp_all add: empty_trust_world_def world_defs default_options_def str_val_def get_prop_def
        empty_object_def)
  note resolved = trust_accounts_never_fail_validation [OF prev, of ?options]
  from resolved none
  have "resolve_trustAccountOne empty_trust_world ?options empty_object = J (JStr ''690332314549'')"
    and "resolve_trustAccountTwo empty_trust_world ?options empty_object = J (JStr ''332134949057'')"
    by blast+
  moreover have "fst (deployStack empty_trust_world ?options fresh) = Return ()"
    by (simp add: empty_trust_world_def world_defs deploy_defs prog_defs)
  moreover have "commands_run (deployStack empty_trust_world ?options) fresh =
     [''aws cloudformation describe-stacks --stack-name s3-mcp-infrastructure --region us-east-1'',
      ''aws cloudformation update-stack '' @ [CHR 0x5C, CHR 0x0A] @
      ''    --stack-name s3-mcp-infrastructure '' @ [CHR 0x5C, CHR 0x0A] @
      ''    --template-body file:///repo/stack.yml '' @ [CHR 0x5C, CHR 0x0A] @
      ''    --parameters '' @
      ''        ParameterKey=YourBucketName,ParameterValue=s3-mcp-test-bucket-12345 '' @
      ''        ParameterKey=TrustPolicyAccountIdOne,ParameterValue=690332314549 '' @
      ''        ParameterKey=TrustPolicyAccountIdTwo,ParameterValue=332134949057 '' @
      ''    --capabilities CAPABILITY_NAMED_IAM '' @ [CHR 0x5C, CHR 0x0A] @
      ''    --region us-east-1'',
      ''aws cloudformation wait stack-update-complete --stack-name s3-mcp-infrastructure --region us-east-1'',
      ''aws cloudformation describe-stacks --stack-name s3-mcp-infrastructure --query '' @ [CHR 0x27] @
        ''Stacks[0].Outputs'' @ [CHR 0x27] @ '' --output json --region us-east-1'']"
    by (simp add: empty_trust_world_def world_defs deploy_defs prog_defs commands_run_def
        describe_stacks_def stack_command_def wait_command_def outputs_command_def STACK_NAME_def
        backslash_def newline_def squote_def)
  ultimately show ?thesis by blast
qed

text \<open>
  The claim as stated fails when \<open>outputs.json\<close> holds the empty array as the value of
  both \<open>TrustPolicyAccountIdOne\<close> and \<open>TrustPolicyAccountIdTwo\<close> and neither a flag
  nor an environment variable is given. An array is truthy, so both identifiers
  resolve to the empty array, whose text is empty. The check does not fire: the run
  passes the two preflight probes and the stack probe, updates the stack with two
  empty parameter values, waits, fetches the outputs and returns.
\<close>

theorem empty_array_trust_accounts_counterexample:
  "fst (readOutputs array_trust_world deployed)
     = Return \<lparr>own = [''TrustPolicyAccountIdOne'' \<mapsto> J (JArr []),
                      ''TrustPolicyAccountIdTwo'' \<mapsto> J (JArr [])],
               proto = ObjectPrototype\<rparr> \<and>
   resolve_trustAccountOne array_trust_world default_options
       \<lparr>own = [''TrustPolicyAccountIdOne'' \<mapsto> J (JArr []),
               ''TrustPolicyAccountIdTwo'' \<mapsto> J (JArr [])],
        proto = ObjectPrototype\<rparr> = J (JArr []) \<and>
   resolve_trustAccountTwo array_trust_world default_options
       \<lparr>own = [''TrustPolicyAccountIdOne'' \<mapsto> J (JArr []),
               ''TrustPolicyAccountIdTwo'' \<mapsto> J (JArr [])],
        proto = ObjectPrototype\<rparr> = J (JArr []) \<and>
   to_text (J (JArr [])) = Some [] \<and>
   fst (main_deploy array_trust_world deployed) = Return () \<and>
   commands_run (main_deploy array_trust_world) deployed =
     [''aws --version'', ''aws sts get-caller-identity'',
      ''aws cloudformation describe-stacks --stack-name s3-mcp-infrastructure --region us-east-1'',
      ''aws cloudformation update-stack '' @ [CHR 0x5C, CHR 0x0A] @
      ''    --stack-name s3-mcp-infrastructure '' @ [CHR 0x5C, CHR 0x0A] @
      ''    --template-body file:///repo/stack.yml '' @ [CHR 0x5C, CHR 0x0A] @
      ''    --parameters '' @
      ''        ParameterKey=YourBucketName,ParameterValue=s3-mcp-test-bucket-12345 '' @
      ''        ParameterKey=TrustPolicyAccountIdOne,ParameterValue= '' @
      ''        ParameterKey=TrustPolicyAccountIdTwo,ParameterValue= '' @
      ''    --capabilities CAPABILITY_NAMED_IAM '' @ [CHR 0x5C, CHR 0x0A] @
      ''    --region us-east-1'',
      ''aws cloudformation wait stack-update-complete --stack-name s3-mcp-infrastructure --region us-east-1'',
      ''aws cloudformation describe-stacks --stack-name s3-mcp-infrastructure --query '' @ [CHR 0x27] @
        ''Stacks[0].Outputs'' @ [CHR 0x27] @ '' --output json --region us-east-1'']"
  by (simp add: array_trust_world_def array_trust_outputs_def output_pair_def world_defs deployed_def
      deploy_defs prog_defs commands_run_def set_prop_def inherits_proto_accessor_def
      describe_stacks_def stack_command_def wait_command_def outputs_command_def STACK_NAME_def
      backslash_def newline_def squote_def)

section \<open>The bucket-name parameter of the stack operation\<close>

text \<open>
  Claim C3. Every create-stack or update-stack command that a run of \<open>deployStack\<close>
  executes contains the parameter text
  \<open>ParameterKey=YourBucketName,ParameterValue=s3-mcp-test-bucket-12345\<close>. The command
  is built from the operation, the texts of the two resolved trust accounts and of
  the resolved region, and the template path; the resolved bucket name is no part of
  it and appears in the run only as the console line \<open>Using bucket name\<close>.
\<close>

theorem stack_operation_bucket_is_literal:
  "\<forall>c \<in> set (commands_run (deployStack w options) s).
     starts_with c ''aws cloudformation create-stack'' \<or>
     starts_with c ''aws cloudformation update-stack'' \<longrightarrow>
       str_includes c ''ParameterKey=YourBucketName,ParameterValue=s3-mcp-test-bucket-12345 '' \<and>
       (\<exists>prev b r one two operation.
          readOutputs w s = (Return prev, s) \<and>
          to_text (resolve_bucketName w options prev) = Some b \<and>
          to_text (resolve_region w options prev) = Some r \<and>
          to_text (resolve_trustAccountOne w options prev) = Some one \<and>
          to_text (resolve_trustAccountTwo w options prev) = Some two \<and>
          c = stack_command w operation one two r \<and>
          Log (''[DEPLOY] Using bucket name: '' @ b) \<in> set (trace (snd (deployStack w options s))))"
proof (intro ballI impI)
  fix c
  assume c: "c \<in> set (commands_run (deployStack w options) s)"
    and op: "starts_with c ''aws cloudformation create-stack'' \<or>
             starts_with c ''aws cloudformation update-stack''"
  show "str_includes c ''ParameterKey=YourBucketName,ParameterValue=s3-mcp-test-bucket-12345 '' \<and>
       (\<exists>prev b r one two operation.
          readOutputs w s = (Return prev, s) \<and>
          to_text (resolve_bucketName w options prev) = Some b \<and>
          to_text (resolve_region w options prev) = Some r \<and>
          to_text (resolve_trustAccountOne w options prev) = Some one \<and>
          to_text (resolve_trustAccountTwo w options prev) = Some two \<and>
          c = stack_command w operation one two r \<and>
          Log (''[DEPLOY] Using bucket name: '' @ b) \<in> set (trace (snd (deployStack w options s))))"
  proof (rule deployStack_run [of w s options])
    fix prev
    assume "commands_run (deployStack w options) s = []"
    with c show ?thesis by simp
  next
    fix prev b r one two ex tail
    assume prev: "readOutputs w s = (Return prev, s)"
      and texts: "to_text (resolve_bucketName w options prev) = Some b"
        "to_text (resolve_region w options prev) = Some r"
        "to_text (resolve_trustAccountOne w options prev) = Some one"
        "to_text (resolve_trustAccountTwo w options prev) = Some two"
      and cmds: "commands_run (deployStack w options) s =
             describe_stacks STACK_NAME r #
             stack_command w (if ex then ''update-stack'' else ''create-stack'') one two r # tail"
      and tail: "set tail \<subseteq> {wait_command (if ex then ''stack-update-complete'' else ''stack-create-complete'') r,
                          outputs_command r}"
      and logged: "Log (''[DEPLOY] Using bucket name: '' @ b) \<in> set (trace (snd (deployStack w options s)))"
    from c cmds tail have "c = describe_stacks STACK_NAME r \<or>
        c = stack_command w (if ex then ''update-stack'' else ''create-stack'') one two r \<or>
        c = wait_command (if ex then ''stack-update-complete'' else ''stack-create-complete'') r \<or>
        c = outputs_command r"
      by auto
    with op have "c = stack_command w (if ex then ''update-stack'' else ''create-stack'') one two r"
      using other_commands_are_no_stack_operation by blast
    with prev texts logged show ?thesis
      using stack_command_literal by blast
  qed
qed

theorem stack_operation_bucket_is_literal_witness:
  "stack_command deploy_world ''update-stack'' ''690332314549'' ''332134949057'' ''us-east-1''
     \<in> set (commands_run (deployStack deploy_world (default_options\<lparr>bucketName := Some ''my-bucket''\<rparr>)) fresh) \<and>
   starts_with (stack_command deploy_world ''update-stack'' ''690332314549'' ''332134949057'' ''us-east-1'')
     ''aws cloudformation update-stack'' \<and>
   str_includes (stack_command deploy_world ''update-stack'' ''690332314549'' ''332134949057'' ''us-east-1'')
     ''ParameterKey=YourBucketName,ParameterValue=s3-mcp-test-bucket-12345 '' \<and>
   Log ''[DEPLOY] Using bucket name: my-bucket''
     \<in> set (trace (snd (deployStack deploy_world (default_options\<lparr>bucketName := Some ''my-bucket''\<rparr>) fresh)))"
proof -
  let ?c = "stack_command deploy_world ''update-stack'' ''690332314549'' ''332134949057'' ''us-east-1''"
  let ?options = "default_options\<lparr>bucketName := Some ''my-bucket''\<rparr>"
  have mem: "?c \<in> set (commands_run (deployStack deploy_world ?options) fresh)"
    by (simp add: world_defs deploy_defs prog_defs commands_run_def)
  have op: "starts_with ?c ''aws cloudformation update-stack''"
    by (simp add: starts_with_def stack_command_def)
  have logged: "Log ''[DEPLOY] Using bucket name: my-bucket''
     \<in> set (trace (snd (deployStack deploy_world ?options fresh)))"
    by (simp add: world_defs deploy_defs prog_defs)
  from stack_operation_bucket_is_literal [of deploy_world ?options fresh] mem op
  have "str_includes ?c ''ParameterKey=YourBucketName,ParameterValue=s3-mcp-test-bucket-12345 ''"
    by blast
  with mem op logged show ?thesis by blast
qed

section \<open>The no-updates outcome of the stack operation\<close>

text \<open>
  Claim C2. Let a run of \<open>deployStack\<close> reach the stack operation (the four resolved
  options have a text), and let the safe runner report a failure of the create-stack
  or update-stack command \<open>c\<close>. If the captured stderr contains
  \<open>No updates are to be performed\<close>, the run logs that no updates are needed and the
  only command after \<open>c\<close> is the \<open>describe-stacks\<close> query of the stack outputs: no
  wait is run. When that query succeeds, its text parses and the write succeeds,
  \<open>outputs.json\<close> holds the newly written outputs; when the parsed outputs are pairs
  of a key and a string value, \<open>deployStack\<close> returns normally and its trace is the
  one given, which ends with the display of the outputs. On any other failure of \<open>c\<close>
  the process exits with code 1 right after it and \<open>outputs.json\<close> is untouched.
\<close>

theorem no_updates_failure_is_a_noop:
  assumes prev: "readOutputs w s = (Return prev, s)"
    and b: "to_text (resolve_bucketName w options prev) = Some b"
    and r: "to_text (resolve_region w options prev) = Some r"
    and one: "to_text (resolve_trustAccountOne w options prev) = Some one"
    and two: "to_text (resolve_trustAccountTwo w options prev) = Some two"
    and probe: "probe = ''aws cloudformation describe-stacks --stack-name s3-mcp-infrastructure --region '' @ r"
    and ex: "ex = (case shell w (executed (trace s)) probe of Ok _ \<Rightarrow> True | Failed _ \<Rightarrow> False)"
    and c: "c = ''aws cloudformation '' @ (if ex then ''update-stack'' else ''create-stack'') @ '' '' @
                [CHR 0x5C, CHR 0x0A] @
                ''    --stack-name s3-mcp-infrastructure '' @ [CHR 0x5C, CHR 0x0A] @
                ''    --template-body file://'' @ template_file w @ '' '' @ [CHR 0x5C, CHR 0x0A] @
                ''    --parameters '' @
                ''        ParameterKey=YourBucketName,ParameterValue=s3-mcp-test-bucket-12345 '' @
                ''        ParameterKey=TrustPolicyAccountIdOne,ParameterValue='' @ one @ '' '' @
                ''        ParameterKey=TrustPolicyAccountIdTwo,ParameterValue='' @ two @ '' '' @
                ''    --capabilities CAPABILITY_NAMED_IAM '' @ [CHR 0x5C, CHR 0x0A] @
                ''    --region '' @ r"
    and fetch: "fetch = ''aws cloudformation describe-stacks --stack-name s3-mcp-infrastructure --query '' @
                [CHR 0x27] @ ''Stacks[0].Outputs'' @ [CHR 0x27] @ '' --output json --region '' @ r"
    and failed: "shell w (executed (trace s) @ [probe]) c = Failed error"
  shows "((\<exists>t. stderr error = Some t \<and> str_includes t ''No updates are to be performed'') \<longrightarrow>
            commands_run (deployStack w options) s = [probe, c, fetch] \<and>
            Log ''[DEPLOY] No updates are needed - stack is already up to date!''
              \<in> set (trace (snd (deployStack w options s))) \<and>
            (\<forall>out d. shell w (executed (trace s) @ [probe, c]) fetch = Ok out \<and>
                      JSON_parse w out = Inr d \<and> writeFile_error w = None \<longrightarrow>
               outputs_json (snd (deployStack w options s)) = Content (JSON_stringify w d)) \<and>
            (\<forall>out kvs. shell w (executed (trace s) @ [probe, c]) fetch = Ok out \<and>
                        JSON_parse w out = Inr (JArr (map (\<lambda>kv. output_pair (fst kv, JStr (snd kv))) kvs)) \<and>
                        writeFile_error w = None \<longrightarrow>
               fst (deployStack w options s) = Return () \<and>
               trace (snd (deployStack w options s)) = trace s @
                 [LogObject prev,
                  Log ''[DEPLOY] Deploying stack: s3-mcp-infrastructure'',
                  Log (''[DEPLOY] Using bucket name: '' @ b),
                  Log (''[DEPLOY] Using region: '' @ r),
                  Log (replicate 102 (CHR ''-'')),
                  Log ''[DEPLOY] Vendia Trust Relationship AWS Accounts:'',
                  Log (''[DEPLOY] Using trust account one: '' @ one),
                  Log (''[DEPLOY] Using trust account two: '' @ two),
                  Log ''https://docs.vendia.com/platform/vendia-mcp-server/storage-connections/'',
                  Log (replicate 102 (CHR ''-'')),
                  Log (''[DEPLOY] Using template: '' @ template_file w),
                  Exec probe,
                  Log (''[DEPLOY] '' @ (if ex then ''Updating'' else ''Creating'') @ '' CloudFormation stack...''),
                  Exec c,
                  Log ''[DEPLOY] No updates are needed - stack is already up to date!'',
                  Log ''[DEPLOY] Getting stack outputs...'',
                  Exec fetch,
                  WriteOutputs (JSON_stringify w (JArr (map (\<lambda>kv. output_pair (fst kv, JStr (snd kv))) kvs))),
                  Log (''[DEPLOY] Stack outputs written to: '' @ outputs_file w),
                  Log ([CHR 0x5C] @ ''nStack Outputs:'')] @
                 (if kvs = [] then [Log ''No outputs found'']
                  else map (\<lambda>kv. Log (fst kv @ '': '' @ snd kv)) kvs))) \<and>
         (\<not> (\<exists>t. stderr error = Some t \<and> str_includes t ''No updates are to be performed'') \<longrightarrow>
            fst (deployStack w options s) = Exit 1 \<and>
            commands_run (deployStack w options) s = [probe, c] \<and>
            outputs_json (snd (deployStack w options s)) = outputs_json s)"
proof -
  have probe': "probe = describe_stacks STACK_NAME r"
    by (simp add: probe describe_stacks_def STACK_NAME_def)
  have c': "c = stack_command w (if ex then ''update-stack'' else ''create-stack'') one two r"
    by (simp add: c stack_command_def STACK_NAME_def backslash_def newline_def)
  have fetch': "fetch = outputs_command r"
    by (simp add: fetch outputs_command_def STACK_NAME_def squote_def)
  define s1 where "s1 = s\<lparr>trace := trace s @
              [LogObject prev,
               Log (''[DEPLOY] Deploying stack: '' @ STACK_NAME),
               Log (''[DEPLOY] Using bucket name: '' @ b),
               Log (''[DEPLOY] Using region: '' @ r),
               Log rule_line,
               Log ''[DEPLOY] Vendia Trust Relationship AWS Accounts:'',
               Log (''[DEPLOY] Using trust account one: '' @ one),
               Log (''[DEPLOY] Using trust account two: '' @ two),
               Log ''https://docs.vendia.com/platform/vendia-mcp-server/storage-connections/'',
               Log rule_line,
               Log (''[DEPLOY] Using template: '' @ template_file w),
               Exec probe]\<rparr>"
  have run: "deployStack w options s =
       and_then (run_stack_operation w ex c r) (fetch_and_persist w r) s1"
    unfolding s1_def c' probe'
    by (rule deployStack_operation_run [OF prev b r one two ex [unfolded probe']])
  have s1: "executed (trace s1) = executed (trace s) @ [probe]"
    "outputs_json s1 = outputs_json s"
    by (simp_all add: s1_def)
  have failed1: "shell w (executed (trace s1)) c = Failed error"
    using failed by (simp add: s1)
  show ?thesis
  proof (cases "\<exists>t. stderr error = Some t \<and> str_includes t ''No updates are to be performed''")
    case True
    then obtain t where t: "stderr error = Some t" "str_includes t ''No updates are to be performed''"
      by blast
    define s2 where "s2 = s1\<lparr>trace := trace s1 @
       [Log (''[DEPLOY] '' @ (if ex then ''Updating'' else ''Creating'') @ '' CloudFormation stack...''),
        Exec c,
        Log ''[DEPLOY] No updates are needed - stack is already up to date!'']\<rparr>"
    have op: "run_stack_operation w ex c r s1 = (Return (), s2)"
      unfolding s2_def by (rule run_stack_operation_no_updates_run [OF failed1 t])
    have fin: "deployStack w options s = fetch_and_persist w r s2"
      by (simp add: run and_then_run op)
    have s2: "executed (trace s2) = executed (trace s) @ [probe, c]"
      by (simp add: s2_def s1)
    have "Log ''[DEPLOY] No updates are needed - stack is already up to date!'' \<in> set (trace s2)"
      by (simp add: s2_def)
    then have logged: "Log ''[DEPLOY] No updates are needed - stack is already up to date!''
        \<in> set (trace (snd (deployStack w options s)))"
      using fetch_and_persist_grows [of s2 w r] set_mono_prefix unfolding fin by blast
    have cmds: "commands_run (deployStack w options) s = [probe, c, fetch]"
      using fetch_and_persist_commands [of w r s2] by (simp add: commands_run_def fin s2 fetch')
    have written: "outputs_json (snd (deployStack w options s)) = Content (JSON_stringify w d)"
      if "shell w (executed (trace s) @ [probe, c]) fetch = Ok out"
        and "JSON_parse w out = Inr d" and "writeFile_error w = None" for out d
      using fetch_and_persist_writes [of w s2 r out d] that by (simp add: fin s2 fetch')
    have displayed: "fst (deployStack w options s) = Return () \<and>
               trace (snd (deployStack w options s)) = trace s @
                 [LogObject prev,
                  Log ''[DEPLOY] Deploying stack: s3-mcp-infrastructure'',
                  Log (''[DEPLOY] Using bucket name: '' @ b),
                  Log (''[DEPLOY] Using region: '' @ r),
                  Log (replicate 102 (CHR ''-'')),
                  Log ''[DEPLOY] Vendia Trust Relationship AWS Accounts:'',
                  Log (''[DEPLOY] Using trust account one: '' @ one),
                  Log (''[DEPLOY] Using trust account two: '' @ two),
                  Log ''https://docs.vendia.com/platform/vendia-mcp-server/storage-connections/'',
                  Log (replicate 102 (CHR ''-'')),
                  Log (''[DEPLOY] Using template: '' @ template_file w),
                  Exec probe,
                  Log (''[DEPLOY] '' @ (if ex then ''Updating'' else ''Creating'') @ '' CloudFormation stack...''),
                  Exec c,
                  Log ''[DEPLOY] No updates are needed - stack is already up to date!'',
                  Log ''[DEPLOY] Getting stack outputs...'',
                  Exec fetch,
                  WriteOutputs (JSON_stringify w (JArr (map (\<lambda>kv. output_pair (fst kv, JStr (snd kv))) kvs))),
                  Log (''[DEPLOY] Stack outputs written to: '' @ outputs_file w),
                  Log ([CHR 0x5C] @ ''nStack Outputs:'')] @
                 (if kvs = [] then [Log ''No outputs found'']
                  else map (\<lambda>kv. Log (fst kv @ '': '' @ snd kv)) kvs)"
      if "shell w (executed (trace s) @ [probe, c]) fetch = Ok out"
        and "JSON_parse w out = Inr (JArr (map (\<lambda>kv. output_pair (fst kv, JStr (snd kv))) kvs))"
        and "writeFile_error w = None" for out kvs
    proof -
      have "shell w (executed (trace s2)) (outputs_command r) = Ok out"
        using that(1) by (simp add: s2 fetch')
      from fetch_and_persist_written [OF this that(2,3)]
      show ?thesis
        unfolding fin
        by (simp add: display_outputs_pairs s2_def s1_def fetch' STACK_NAME_def rule_line_def)
    qed
    from True logged cmds written displayed show ?thesis by blast
  next
    case False
    from run_stack_operation_other_failure [OF failed1 False, of ex r]
    have op: "fst (run_stack_operation w ex c r s1) = Exit 1"
      "executed (trace (snd (run_stack_operation w ex c r s1))) = executed (trace s1) @ [c]"
      "outputs_json (snd (run_stack_operation w ex c r s1)) = outputs_json s1"
      by simp_all
    have fin: "deployStack w options s = (Exit 1, snd (run_stack_operation w ex c r s1))"
      by (simp add: run and_then_run op(1))
    from False show ?thesis
      by (simp add: fin op s1 commands_run_def)
  qed
qed

theorem no_updates_failure_is_a_noop_witness:
  "fst (deployStack no_updates_world default_options fresh) = Return () \<and>
   commands_run (deployStack no_updates_world default_options) fresh =
     [''aws cloudformation describe-stacks --stack-name s3-mcp-infrastructure --region us-east-1'',
      (''aws cloudformation update-stack '' @ [CHR 0x5C, CHR 0x0A] @
        ''    --stack-name s3-mcp-infrastructure '' @ [CHR 0x5C, CHR 0x0A] @
        ''    --template-body file:///repo/stack.yml '' @ [CHR 0x5C, CHR 0x0A] @
        ''    --parameters '' @
        ''        ParameterKey=YourBucketName,ParameterValue=s3-mcp-test-bucket-12345 '' @
        ''        ParameterKey=TrustPolicyAccountIdOne,ParameterValue=690332314549 '' @
        ''        ParameterKey=TrustPolicyAccountIdTwo,ParameterValue=332134949057 '' @
        ''    --capabilities CAPABILITY_NAMED_IAM '' @ [CHR 0x5C, CHR 0x0A] @
        ''    --region us-east-1''),
      ''aws cloudformation describe-stacks --stack-name s3-mcp-infrastructure --query '' @ [CHR 0x27] @
        ''Stacks[0].Outputs'' @ [CHR 0x27] @ '' --output json --region us-east-1''] \<and>
   outputs_json (snd (deployStack no_updates_world default_options fresh)) = Content ''written'' \<and>
   drop 11 (trace (snd (deployStack no_updates_world default_options fresh))) =
     [Exec ''aws cloudformation describe-stacks --stack-name s3-mcp-infrastructure --region us-east-1'',
      Log ''[DEPLOY] Updating CloudFormation stack...'',
      Exec (''aws cloudformation update-stack '' @ [CHR 0x5C, CHR 0x0A] @
        ''    --stack-name s3-mcp-infrastructure '' @ [CHR 0x5C, CHR 0x0A] @
        ''    --template-body file:///repo/stack.yml '' @ [CHR 0x5C, CHR 0x0A] @
        ''    --parameters '' @
        ''        ParameterKey=YourBucketName,ParameterValue=s3-mcp-test-bucket-12345 '' @
        ''        ParameterKey=TrustPolicyAccountIdOne,ParameterValue=690332314549 '' @
        ''        ParameterKey=TrustPolicyAccountIdTwo,ParameterValue=332134949057 '' @
        ''    --capabilities CAPABILITY_NAMED_IAM '' @ [CHR 0x5C, CHR 0x0A] @
        ''    --region us-east-1''),
      Log ''[DEPLOY] No updates are needed - stack is already up to date!'',
      Log ''[DEPLOY] Getting stack outputs...'',
      Exec (''aws cloudformation describe-stacks --stack-name s3-mcp-infrastructure --query '' @ [CHR 0x27] @
        ''Stacks[0].Outputs'' @ [CHR 0x27] @ '' --output json --region us-east-1''),
      WriteOutputs ''written'',
      Log ''[DEPLOY] Stack outputs written to: /repo/outputs.json'',
      Log ([CHR 0x5C] @ ''nStack Outputs:''),
      Log ''BucketName: my-bucket'',
      Log ''Region: eu-west-1''] \<and>
   fst (deployStack denied_world default_options fresh) = Exit 1 \<and>
   commands_run (deployStack denied_world default_options) fresh =
     [''aws cloudformation describe-stacks --stack-name s3-mcp-infrastructure --region us-east-1'',
      (''aws cloudformation update-stack '' @ [CHR 0x5C, CHR 0x0A] @
        ''    --stack-name s3-mcp-infrastructure '' @ [CHR 0x5C, CHR 0x0A] @
        ''    --template-body file:///repo/stack.yml '' @ [CHR 0x5C, CHR 0x0A] @
        ''    --parameters '' @
        ''        ParameterKey=YourBucketName,ParameterValue=s3-mcp-test-bucket-12345 '' @
        ''        ParameterKey=TrustPolicyAccountIdOne,ParameterValue=690332314549 '' @
        ''        ParameterKey=TrustPolicyAccountIdTwo,ParameterValue=332134949057 '' @
        ''    --capabilities CAPABILITY_NAMED_IAM '' @ [CHR 0x5C, CHR 0x0A] @
        ''    --region us-east-1'')] \<and>
   outputs_json (snd (deployStack denied_world default_options fresh)) = Absent"
proof -
  let ?probe = "''aws cloudformation describe-stacks --stack-name s3-mcp-infrastructure --region us-east-1''"
  let ?fetch = "''aws cloudformation describe-stacks --stack-name s3-mcp-infrastructure --query '' @ [CHR 0x27] @
        ''Stacks[0].Outputs'' @ [CHR 0x27] @ '' --output json --region us-east-1''"
  let ?kvs = "[(''BucketName'', ''my-bucket''), (''Region'', ''eu-west-1'')]"
  have first:
    "fst (deployStack no_updates_world default_options fresh) = Return () \<and>
     commands_run (deployStack no_updates_world default_options) fresh =
       [?probe, (''aws cloudformation update-stack '' @ [CHR 0x5C, CHR 0x0A] @
        ''    --stack-name s3-mcp-infrastructure '' @ [CHR 0x5C, CHR 0x0A] @
        ''    --template-body file:///repo/stack.yml '' @ [CHR 0x5C, CHR 0x0A] @
        ''    --parameters '' @
        ''        ParameterKey=YourBucketName,ParameterValue=s3-mcp-test-bucket-12345 '' @
        ''        ParameterKey=TrustPolicyAccountIdOne,ParameterValue=690332314549 '' @
        ''        ParameterKey=TrustPolicyAccountIdTwo,ParameterValue=332134949057 '' @
        ''    --capabilities CAPABILITY_NAMED_IAM '' @ [CHR 0x5C, CHR 0x0A] @
        ''    --region us-east-1''),
        ?fetch] \<and>
     outputs_json (snd (deployStack no_updates_world default_options fresh)) = Content ''written'' \<and>
     drop 11 (trace (snd (deployStack no_updates_world default_options fresh))) =
       [Exec ?probe,
        Log ''[DEPLOY] Updating CloudFormation stack...'',
        Exec (''aws cloudformation update-stack '' @ [CHR 0x5C, CHR 0x0A] @
        ''    --stack-name s3-mcp-infrastructure '' @ [CHR 0x5C, CHR 0x0A] @
        ''    --template-body file:///repo/stack.yml '' @ [CHR 0x5C, CHR 0x0A] @
        ''    --parameters '' @
        ''        ParameterKey=YourBucketName,ParameterValue=s3-mcp-test-bucket-12345 '' @
        ''        ParameterKey=TrustPolicyAccountIdOne,ParameterValue=690332314549 '' @
        ''        ParameterKey=TrustPolicyAccountIdTwo,ParameterValue=332134949057 '' @
        ''    --capabilities CAPABILITY_NAMED_IAM '' @ [CHR 0x5C, CHR 0x0A] @
        ''    --region us-east-1''),
        Log ''[DEPLOY] No updates are needed - stack is already up to date!'',
        Log ''[DEPLOY] Getting stack outputs...'',
        Exec ?fetch,
        WriteOutputs ''written'',
        Log ''[DEPLOY] Stack outputs written to: /repo/outputs.json'',
        Log ([CHR 0x5C] @ ''nStack Outputs:''),
        Log ''BucketName: my-bucket'',
        Log ''Region: eu-west-1'']"
  proof -
    let ?w = no_updates_world
    let ?c = "''aws cloudformation update-stack '' @ [CHR 0x5C, CHR 0x0A] @
        ''    --stack-name s3-mcp-infrastructure '' @ [CHR 0x5C, CHR 0x0A] @
        ''    --template-body file:///repo/stack.yml '' @ [CHR 0x5C, CHR 0x0A] @
        ''    --parameters '' @
        ''        ParameterKey=YourBucketName,ParameterValue=s3-mcp-test-bucket-12345 '' @
        ''        ParameterKey=TrustPolicyAccountIdOne,ParameterValue=690332314549 '' @
        ''        ParameterKey=TrustPolicyAccountIdTwo,ParameterValue=332134949057 '' @
        ''    --capabilities CAPABILITY_NAMED_IAM '' @ [CHR 0x5C, CHR 0x0A] @
        ''    --region us-east-1''"
    have prev: "readOutputs ?w fresh = (Return empty_object, fresh)"
      by (simp add: no_updates_world_def world_defs readOutputs_def readOutputs_try_def
          read_outputs_file_def prog_defs)
    have b: "to_text (resolve_bucketName ?w default_options empty_object) = Some ''undefined''"
      and r: "to_text (resolve_region ?w default_options empty_object) = Some ''us-east-1''"
      and one: "to_text (resolve_trustAccountOne ?w default_options empty_object) = Some ''690332314549''"
      and two: "to_text (resolve_trustAccountTwo ?w default_options empty_object) = Some ''332134949057''"
      by (simp_all add: no_updates_world_def world_defs deploy_defs)
    have probe: "?probe = ''aws cloudformation describe-stacks --stack-name s3-mcp-infrastructure --region '' @ ''us-east-1''"
      by simp
    have ex: "True = (case shell ?w (executed (trace fresh)) ?probe of Ok _ \<Rightarrow> True | Failed _ \<Rightarrow> False)"
      by (simp add: no_updates_world_def world_defs starts_with_def)
    have c: "?c = ''aws cloudformation '' @ (if True then ''update-stack'' else ''create-stack'') @ '' '' @
                [CHR 0x5C, CHR 0x0A] @
                ''    --stack-name s3-mcp-infrastructure '' @ [CHR 0x5C, CHR 0x0A] @
                ''    --template-body file://'' @ template_file ?w @ '' '' @ [CHR 0x5C, CHR 0x0A] @
                ''    --parameters '' @
                ''        ParameterKey=YourBucketName,ParameterValue=s3-mcp-test-bucket-12345 '' @
                ''        ParameterKey=TrustPolicyAccountIdOne,ParameterValue='' @ ''690332314549'' @ '' '' @
                ''        ParameterKey=TrustPolicyAccountIdTwo,ParameterValue='' @ ''332134949057'' @ '' '' @
                ''    --capabilities CAPABILITY_NAMED_IAM '' @ [CHR 0x5C, CHR 0x0A] @
                ''    --region '' @ ''us-east-1''"
      by (simp add: no_updates_world_def world_defs)
    have fetch: "?fetch = ''aws cloudformation describe-stacks --stack-name s3-mcp-infrastructure --query '' @
                [CHR 0x27] @ ''Stacks[0].Outputs'' @ [CHR 0x27] @ '' --output json --region '' @ ''us-east-1''"
      by simp
    have failed: "shell ?w (executed (trace fresh) @ [?probe]) ?c = Failed no_updates_error"
      by (simp add: no_updates_world_def world_defs starts_with_def)
    have noop: "\<exists>t. stderr no_updates_error = Some t \<and> str_includes t ''No updates are to be performed''"
      by (simp add: no_updates_error_def)
    have fetched: "shell ?w (executed (trace fresh) @ [?probe, ?c]) ?fetch = Ok ''written''"
      "JSON_parse ?w ''written'' = Inr (JArr (map (\<lambda>kv. output_pair (fst kv, JStr (snd kv))) ?kvs))"
      "writeFile_error ?w = None"
      "JSON_stringify ?w (JArr (map (\<lambda>kv. output_pair (fst kv, JStr (snd kv))) ?kvs)) = ''written''"
      by (simp_all add: no_updates_world_def world_defs starts_with_def two_outputs_def)
    note run = no_updates_failure_is_a_noop [OF prev b r one two probe ex c fetch failed,
        THEN conjunct1, THEN mp, OF noop]
    note cmds = run [THEN conjunct1]
    note written = run [THEN conjunct2, THEN conjunct2, THEN conjunct1, rule_format,
        OF conjI [OF fetched(1) conjI [OF fetched(2,3)]]]
    note displayed = run [THEN conjunct2, THEN conjunct2, THEN conjunct2, rule_format,
        OF conjI [OF fetched(1) conjI [OF fetched(2,3)]]]
    from cmds written displayed show ?thesis
      by (simp add: fetched(4) no_updates_world_def world_defs two_outputs_def)
  qed
  have second:
    "fst (deployStack denied_world default_options fresh) = Exit 1 \<and>
     commands_run (deployStack denied_world default_options) fresh =
       [?probe, (''aws cloudformation update-stack '' @ [CHR 0x5C, CHR 0x0A] @
        ''    --stack-name s3-mcp-infrastructure '' @ [CHR 0x5C, CHR 0x0A] @
        ''    --template-body file:///repo/stack.yml '' @ [CHR 0x5C, CHR 0x0A] @
        ''    --parameters '' @
        ''        ParameterKey=YourBucketName,ParameterValue=s3-mcp-test-bucket-12345 '' @
        ''        ParameterKey=TrustPolicyAccountIdOne,ParameterValue=690332314549 '' @
        ''        ParameterKey=TrustPolicyAccountIdTwo,ParameterValue=332134949057 '' @
        ''    --capabilities CAPABILITY_NAMED_IAM '' @ [CHR 0x5C, CHR 0x0A] @
        ''    --region us-east-1'')] \<and>
     outputs_json (snd (deployStack denied_world default_options fresh)) = Absent"
  proof -
    let ?w = denied_world
    let ?c = "''aws cloudformation update-stack '' @ [CHR 0x5C, CHR 0x0A] @
        ''    --stack-name s3-mcp-infrastructure '' @ [CHR 0x5C, CHR 0x0A] @
        ''    --template-body file:///repo/stack.yml '' @ [CHR 0x5C, CHR 0x0A] @
        ''    --parameters '' @
        ''        ParameterKey=YourBucketName,ParameterValue=s3-mcp-test-bucket-12345 '' @
        ''        ParameterKey=TrustPolicyAccountIdOne,ParameterValue=690332314549 '' @
        ''        ParameterKey=TrustPolicyAccountIdTwo,ParameterValue=332134949057 '' @
        ''    --capabilities CAPABILITY_NAMED_IAM '' @ [CHR 0x5C, CHR 0x0A] @
        ''    --region us-east-1''"
    have prev: "readOutputs ?w fresh = (Return empty_object, fresh)"
      by (simp add: denied_world_def world_defs readOutputs_def readOutputs_try_def
          read_outputs_file_def prog_defs)
    have b: "to_text (resolve_bucketName ?w default_options empty_object) = Some ''undefined''"
      and r: "to_text (resolve_region ?w default_options empty_object) = Some ''us-east-1''"
      and one: "to_text (resolve_trustAccountOne ?w default_options empty_object) = Some ''690332314549''"
      and two: "to_text (resolve_trustAccountTwo ?w default_options empty_object) = Some ''332134949057''"
      by (simp_all add: denied_world_def world_defs deploy_defs)
    have probe: "?probe = ''aws cloudformation describe-stacks --stack-name s3-mcp-infrastructure --region '' @ ''us-east-1''"
      by simp
    have ex: "True = (case shell ?w (executed (trace fresh)) ?probe of Ok _ \<Rightarrow> True | Failed _ \<Rightarrow> False)"
      by (simp add: denied_world_def world_defs starts_with_def)
    have c: "?c = ''aws cloudformation '' @ (if True then ''update-stack'' else ''create-stack'') @ '' '' @
                [CHR 0x5C, CHR 0x0A] @
                ''    --stack-name s3-mcp-infrastructure '' @ [CHR 0x5C, CHR 0x0A] @
                ''    --template-body file://'' @ template_file ?w @ '' '' @ [CHR 0x5C, CHR 0x0A] @
                ''    --parameters '' @
                ''        ParameterKey=YourBucketName,ParameterValue=s3-mcp-test-bucket-12345 '' @
                ''        ParameterKey=TrustPolicyAccountIdOne,ParameterValue='' @ ''690332314549'' @ '' '' @
                ''        ParameterKey=TrustPolicyAccountIdTwo,ParameterValue='' @ ''332134949057'' @ '' '' @
                ''    --capabilities CAPABILITY_NAMED_IAM '' @ [CHR 0x5C, CHR 0x0A] @
                ''    --region '' @ ''us-east-1''"
      by (simp add: denied_world_def world_defs)
    have fetch: "?fetch = ''aws cloudformation describe-stacks --stack-name s3-mcp-infrastructure --query '' @
                [CHR 0x27] @ ''Stacks[0].Outputs'' @ [CHR 0x27] @ '' --output json --region '' @ ''us-east-1''"
      by simp
    have failed: "shell ?w (executed (trace fresh) @ [?probe]) ?c = Failed denied_error"
      by (simp add: denied_world_def world_defs starts_with_def)
    have other: "\<not> (\<exists>t. stderr denied_error = Some t \<and> str_includes t ''No updates are to be performed'')"
      by (simp add: denied_error_def)
    from no_updates_failure_is_a_noop [OF prev b r one two probe ex c fetch failed] other
    show ?thesis by (simp add: fresh_def del: str_includes.simps)
  qed
  from first second show ?thesis by blast
qed

section \<open>Teardown without a stack\<close>

text \<open>
  Claim C6. Let the persisted outputs hold a bucket name, and let the probe for the
  stack fail. Then \<open>teardown\<close> returns normally, the probe is the only command it
  runs (no listing, no delete of an object, no deletion of the stack), and
  \<open>outputs.json\<close> is left as it was. A script whose \<open>teardown\<close> returns ends with
  exit code 0.
\<close>

theorem teardown_without_stack_is_a_noop:
  assumes prev: "readOutputs w s = (Return prev, s)"
    and bucket: "truthy (get_prop prev ''BucketName'')"
    and b: "to_text (get_prop prev ''BucketName'') = Some b"
    and r: "to_text (or_else (or_else (str_val (region options)) (get_prop prev ''Region''))
                       (J (JStr ''us-east-1''))) = Some r"
    and missing: "shell w (executed (trace s)) (describe_stacks STACK_NAME r) = Failed error"
  shows "fst (teardown w options s) = Return () \<and>
         commands_run (teardown w options) s = [describe_stacks STACK_NAME r] \<and>
         outputs_json (snd (teardown w options s)) = outputs_json s"
  using bucket missing
  by (simp add: teardown_def prev b r stackExists_def Let_def commands_run_def prog_defs)

theorem teardown_without_stack_is_a_noop_witness:
  "fst (teardown no_stack_world \<lparr>region = Some ''us-east-1'', force = False\<rparr> deployed) = Return () \<and>
   commands_run (teardown no_stack_world \<lparr>region = Some ''us-east-1'', force = False\<rparr>) deployed
     = [describe_stacks STACK_NAME ''us-east-1''] \<and>
   outputs_json (snd (teardown no_stack_world \<lparr>region = Some ''us-east-1'', force = False\<rparr> deployed))
     = Content ''written''"
proof -
  let ?prev = "\<lparr>own = [''BucketName'' \<mapsto> J (JStr ''my-bucket''), ''Region'' \<mapsto> J (JStr ''eu-west-1'')],
                proto = ObjectPrototype\<rparr>"
  have prev: "readOutputs no_stack_world deployed = (Return ?prev, deployed)"
    by (simp add: no_stack_world_def world_defs deployed_def two_outputs_def output_pair_def
        readOutputs_def readOutputs_try_def read_outputs_file_def prog_defs to_text_def set_prop_def
        empty_object_def)
  have bucket: "truthy (get_prop ?prev ''BucketName'')"
    and b: "to_text (get_prop ?prev ''BucketName'') = Some ''my-bucket''"
    and r: "to_text (or_else (or_else (str_val (region \<lparr>region = Some ''us-east-1'', force = False\<rparr>))
                (get_prop ?prev ''Region'')) (J (JStr ''us-east-1''))) = Some ''us-east-1''"
    by (simp_all add: get_prop_def to_text_def or_else_def str_val_def)
  have missing: "shell no_stack_world (executed (trace deployed)) (describe_stacks STACK_NAME ''us-east-1'')
      = Failed missing_stack_error"
    by (simp add: no_stack_world_def world_defs starts_with_def describe_stacks_def)
  from teardown_without_stack_is_a_noop [OF prev bucket b r missing]
  show ?thesis by (simp add: deployed_def)
qed

section \<open>Emptying the bucket\<close>













section \<open>The seed uploads\<close>

lemma seq_run:
  "seq m f s =
     (case fst (m s) of
        Return x \<Rightarrow> f x (snd (m s))
      | Exit n \<Rightarrow> (Exit n, snd (m s))
      | Throw e \<Rightarrow> (Throw e, snd (m s))
      | Unmodelled \<Rightarrow> (Unmodelled, snd (m s)))"
  by (simp add: seq_def split: prod.splits result.splits)

lemma log_lines_run: "log_lines ls s = (Return (), s\<lparr>trace := trace s @ map Log ls\<rparr>)"
  by (induction ls arbitrary: s) (simp_all add: prog_defs)

lemma uploadFileToS3_run:
  "uploadFileToS3 w b file s =
     (Return (upload_outcome w b file), s\<lparr>trace := trace s @ upload_events w b file\<rparr>)"
  by (simp add: uploadFileToS3_def upload_outcome_def upload_events_def upload_error_def prog_defs
      split: option.splits sum.splits)

lemma upload_all_run:
  "upload_all w b files s =
     (Return (map (upload_outcome w b) files),
      s\<lparr>trace := trace s @ concat (map (upload_events w b) files)\<rparr>)"
proof (induction files arbitrary: s)
  case Nil
  then show ?case by (simp add: ret_def)
next
  case (Cons f fs)
  show ?case
    by (simp add: seq_run ret_def uploadFileToS3_run Cons.IH)
qed

lemma successful_outcomes:
  "filter success (map (upload_outcome w b) files)
     = map (upload_outcome w b) (filter (\<lambda>f. upload_error w b f = None) files)"
  by (induction files) (simp_all add: upload_outcome_def split: option.splits)

lemma failed_outcomes:
  "filter (\<lambda>r. \<not> success r) (map (upload_outcome w b) files)
     = map (upload_outcome w b) (filter (\<lambda>f. upload_error w b f \<noteq> None) files)"
  by (induction files) (auto simp add: upload_outcome_def split: option.splits)

lemma print_summary_outcomes:
  assumes succ: "succeeded = filter (\<lambda>f. upload_error w b f = None) files"
    and fail: "failing = filter (\<lambda>f. upload_error w b f \<noteq> None) files"
  shows "print_summary w (map (upload_outcome w b) files) s =
     (Exit (if failing = [] then 0 else 1),
      s\<lparr>trace := trace s @
        [Log [], Log ''Upload Summary:'', Log ''==================''] @
        (if succeeded = [] then []
         else [Log (''Successful uploads: '' @ show_nat (length succeeded)),
               Log (''Total uploaded: '' @ formatBytes w (sum_list (map fileSize succeeded))),
               Log [], Log ''Successfully uploaded files:''] @
              map (\<lambda>f. Log (''   '' @ fileName f @ '' - ETag: '' @
                     (case put_object w b (fileName f) of Inr (Some tag) \<Rightarrow> tag | _ \<Rightarrow> ''undefined'')))
                succeeded) @
        (if failing = [] then []
         else [Log [], Log ''Failed uploads:''] @
              map (\<lambda>f. Log (''   '' @ fileName f @ '' - Error: '' @
                           (case upload_error w b f of Some e \<Rightarrow> e | None \<Rightarrow> ''undefined''))) failing) @
        [Log [],
         Log (if failing = [] then ''All files uploaded successfully!''
              else ''Some uploads failed. Check the errors above.'')]\<rparr>)"
proof -
  have same [simp]: "fileName (upload_outcome w b f) = fileName f"
    "fileSize (upload_outcome w b f) = fileSize f"
    "error_text (upload_outcome w b f) = upload_error w b f" for f
    by (simp_all add: upload_outcome_def split: option.splits)
  have tag: "(case etag (upload_outcome w b f) of None \<Rightarrow> ''undefined'' | Some t \<Rightarrow> t)
      = (case put_object w b (fileName f) of Inr (Some tag) \<Rightarrow> tag | _ \<Rightarrow> ''undefined'')"
    if "f \<in> set succeeded" for f
    using that unfolding succ
    by (auto simp add: upload_outcome_def shown_def upload_error_def split: option.splits sum.splits)
  show ?thesis
    unfolding print_summary_def Let_def successful_outcomes failed_outcomes
      succ [symmetric] fail [symmetric]
    by (simp add: log_lines_run prog_defs comp_def tag shown_def cong: map_cong del: show_nat.simps)
qed

lemmas seed_defs = main_seed_def main_seed_body_def uploadToS3_def checkBucketAccess_def
  getFilesFromDirectory_def uploadFileToS3_def print_summary_def readOutputs_def readOutputs_try_def
  read_outputs_file_def str_val_def or_else_def get_prop_def empty_object_def to_text_def Let_def
  shown_def DEFAULT_REGION_def

text \<open>
  Claim C7. Let the bucket be accessible and the seed directory enumerate to the N
  files \<open>files\<close>; \<open>failing\<close> are the K of them whose upload meets an error (in reading
  the file or in the put), \<open>succeeded\<close> the N - K others. Then the run of
  \<open>uploadToS3\<close> leaves exactly this trace: the opening lines; for every file in order
  its upload (the put is attempted for every readable file, whatever happened to the
  files before it); and the summary, which counts and lists the N - K successful
  files with their entity tags, then lists the K failed files with the captured error
  text. The process exits with code 1 if K > 0 and with code 0 if K = 0. With no file
  at all nothing is uploaded and \<open>uploadToS3\<close> returns.
\<close>

theorem seed_reports_every_file:
  assumes access: "list_objects w b = None"
    and dir: "readdir w = Inr names"
    and files: "collect_files w (seed_directory w) names = Inr files"
    and region: "region_text = (case env w ''AWS_REGION'' of
                                  None \<Rightarrow> ''us-east-1''
                                | Some t \<Rightarrow> if t = [] then ''us-east-1'' else t)"
    and succ: "succeeded = filter (\<lambda>f. upload_error w b f = None) files"
    and fail: "failing = filter (\<lambda>f. upload_error w b f \<noteq> None) files"
  shows "(files = [] \<longrightarrow>
            fst (uploadToS3 w b outputs s) = Return () \<and>
            trace (snd (uploadToS3 w b outputs s)) = trace s @
              [Log ''S3 Upload Script Starting...'',
               Log (''Source directory: '' @ seed_directory w),
               Log (''Target bucket: '' @ b),
               Log (''Region: '' @ region_text),
               Log [],
               Log ''Checking bucket access...'',
               ListObjects b,
               Log ''Bucket is accessible'',
               Log [],
               Log ''Scanning seed directory...'',
               Log ''No files found in seed directory'']) \<and>
         (files \<noteq> [] \<longrightarrow>
            fst (uploadToS3 w b outputs s) = Exit (if failing = [] then 0 else 1) \<and>
            trace (snd (uploadToS3 w b outputs s)) = trace s @
              [Log ''S3 Upload Script Starting...'',
               Log (''Source directory: '' @ seed_directory w),
               Log (''Target bucket: '' @ b),
               Log (''Region: '' @ region_text),
               Log [],
               Log ''Checking bucket access...'',
               ListObjects b,
               Log ''Bucket is accessible'',
               Log [],
               Log ''Scanning seed directory...'',
               Log (''Found '' @ show_nat (length files) @ '' files to upload:'')] @
              map (\<lambda>f. Log (''   - '' @ fileName f @ '' ('' @ formatBytes w (fileSize f) @ '')'')) files @
              [Log [], Log ''Starting uploads...''] @
              concat (map (\<lambda>f.
                  Log (''Uploading '' @ fileName f @ '' ('' @ formatBytes w (fileSize f) @ '')...'') #
                  (case readFile_error w (localPath f) of
                     Some e \<Rightarrow> [Err (''Failed to upload '' @ fileName f @ '': '' @ e)]
                   | None \<Rightarrow>
                       PutObject b (fileName f) #
                       (case put_object w b (fileName f) of
                          Inl e \<Rightarrow> [Err (''Failed to upload '' @ fileName f @ '': '' @ e)]
                        | Inr tag \<Rightarrow> [Log (''Successfully uploaded '' @ fileName f)]))) files) @
              [Log [], Log ''Upload Summary:'', Log ''==================''] @
              (if succeeded = [] then []
               else [Log (''Successful uploads: '' @ show_nat (length succeeded)),
                     Log (''Total uploaded: '' @ formatBytes w (sum_list (map fileSize succeeded))),
                     Log [], Log ''Successfully uploaded files:''] @
                    map (\<lambda>f. Log (''   '' @ fileName f @ '' - ETag: '' @
                           (case put_object w b (fileName f) of Inr (Some tag) \<Rightarrow> tag | _ \<Rightarrow> ''undefined'')))
                      succeeded) @
              (if failing = [] then []
               else [Log [], Log ''Failed uploads:''] @
                    map (\<lambda>f. Log (''   '' @ fileName f @ '' - Error: '' @
                           (case upload_error w b f of Some e \<Rightarrow> e | None \<Rightarrow> ''undefined'')))
                      failing) @
              [Log [],
               Log (if failing = [] then ''All files uploaded successfully!''
                    else ''Some uploads failed. Check the errors above.'')])"
proof -
  have region_text:
    "to_text (or_else (str_val (env w ''AWS_REGION'')) (J (JStr DEFAULT_REGION))) = Some region_text"
    by (simp add: region or_else_def str_val_def to_text_def DEFAULT_REGION_def split: option.splits)
  have events: "upload_events w b = (\<lambda>f.
                  Log (''Uploading '' @ fileName f @ '' ('' @ formatBytes w (fileSize f) @ '')...'') #
                  (case readFile_error w (localPath f) of
                     Some e \<Rightarrow> [Err (''Failed to upload '' @ fileName f @ '': '' @ e)]
                   | None \<Rightarrow>
                       PutObject b (fileName f) #
                       (case put_object w b (fileName f) of
                          Inl e \<Rightarrow> [Err (''Failed to upload '' @ fileName f @ '': '' @ e)]
                        | Inr tag \<Rightarrow> [Log (''Successfully uploaded '' @ fileName f)])))"
    by (rule ext) (simp add: upload_events_def)
  show ?thesis
  proof (cases "files = []")
    case True
    then show ?thesis
      by (simp add: uploadToS3_def region_text checkBucketAccess_def access getFilesFromDirectory_def
          dir files prog_defs)
  next
    case False
    then show ?thesis
      by (simp add: uploadToS3_def region_text checkBucketAccess_def access getFilesFromDirectory_def
          dir files log_lines_run upload_all_run print_summary_outcomes [OF succ fail] events
          prog_defs comp_def del: show_nat.simps)
  qed
qed

theorem seed_reports_every_file_witness:
  "fst (uploadToS3 seed_world ''my-bucket'' empty_object fresh) = Exit 1 \<and>
   trace (snd (uploadToS3 seed_world ''my-bucket'' empty_object fresh)) =
     [Log ''S3 Upload Script Starting...'',
      Log ''Source directory: /repo/seed'',
      Log ''Target bucket: my-bucket'',
      Log ''Region: us-east-1'',
      Log [],
      Log ''Checking bucket access...'',
      ListObjects ''my-bucket'',
      Log ''Bucket is accessible'',
      Log [],
      Log ''Scanning seed directory...'',
      Log ''Found 3 files to upload:'',
      Log ''   - q1_2024_sales.csv (120 Bytes)'',
      Log ''   - q2_2024_sales.csv (120 Bytes)'',
      Log ''   - q3_2024_sales.csv (120 Bytes)'',
      Log [],
      Log ''Starting uploads...'',
      Log ''Uploading q1_2024_sales.csv (120 Bytes)...'',
      PutObject ''my-bucket'' ''q1_2024_sales.csv'',
      Log ''Successfully uploaded q1_2024_sales.csv'',
      Log ''Uploading q2_2024_sales.csv (120 Bytes)...'',
      PutObject ''my-bucket'' ''q2_2024_sales.csv'',
      Err ''Failed to upload q2_2024_sales.csv: Access Denied'',
      Log ''Uploading q3_2024_sales.csv (120 Bytes)...'',
      PutObject ''my-bucket'' ''q3_2024_sales.csv'',
      Log ''Successfully uploaded q3_2024_sales.csv'',
      Log [],
      Log ''Upload Summary:'',
      Log ''=================='',
      Log ''Successful uploads: 2'',
      Log ''Total uploaded: 240 Bytes'',
      Log [],
      Log ''Successfully uploaded files:'',
      Log ''   q1_2024_sales.csv - ETag: etag-1'',
      Log ''   q3_2024_sales.csv - ETag: etag-1'',
      Log [],
      Log ''Failed uploads:'',
      Log ''   q2_2024_sales.csv - Error: Access Denied'',
      Log [],
      Log ''Some uploads failed. Check the errors above.'']"
proof -
  let ?q1 = "\<lparr>fileName = ''q1_2024_sales.csv'', fileSize = 120,
              localPath = ''/repo/seed/q1_2024_sales.csv''\<rparr>"
  let ?q2 = "\<lparr>fileName = ''q2_2024_sales.csv'', fileSize = 120,
              localPath = ''/repo/seed/q2_2024_sales.csv''\<rparr>"
  let ?q3 = "\<lparr>fileName = ''q3_2024_sales.csv'', fileSize = 120,
              localPath = ''/repo/seed/q3_2024_sales.csv''\<rparr>"
  have access: "list_objects seed_world ''my-bucket'' = None"
    and dir: "readdir seed_world
        = Inr [''q1_2024_sales.csv'', ''q2_2024_sales.csv'', ''archive'', ''q3_2024_sales.csv'']"
    and files: "collect_files seed_world (seed_directory seed_world)
        [''q1_2024_sales.csv'', ''q2_2024_sales.csv'', ''archive'', ''q3_2024_sales.csv'']
        = Inr [?q1, ?q2, ?q3]"
    and region: "''us-east-1'' = (case env seed_world ''AWS_REGION'' of
                                  None \<Rightarrow> ''us-east-1''
                                | Some t \<Rightarrow> if t = [] then ''us-east-1'' else t)"
    and succ: "[?q1, ?q3] = filter (\<lambda>f. upload_error seed_world ''my-bucket'' f = None) [?q1, ?q2, ?q3]"
    and fail: "[?q2] = filter (\<lambda>f. upload_error seed_world ''my-bucket'' f \<noteq> None) [?q1, ?q2, ?q3]"
    by (simp_all add: seed_world_def quiet_world_def upload_error_def)
  from seed_reports_every_file [OF access dir files region succ fail, of empty_object fresh]
  show ?thesis
    by (simp add: seed_world_def quiet_world_def upload_error_def shown_def fresh_def)
qed

section \<open>The bucket-name check of the seed script\<close>

text \<open>
  Claim C9, evaluated where the code departs from it. The bucket name \<open>ab\<close> has two
  characters and fails the pattern, but the check also asks for more than three
  characters before it rejects a name: the seed run prints no format error, probes
  the bucket \<open>ab\<close>, uploads the file to it and exits with code 0.
\<close>

theorem short_bucket_name_passes_validation:
  "\<not> bucket_pattern ''ab'' \<and>
   fst (main_seed short_name_world fresh) = Exit 0 \<and>
   ListObjects ''ab'' \<in> set (trace (snd (main_seed short_name_world fresh))) \<and>
   PutObject ''ab'' ''q1_2024_sales.csv'' \<in> set (trace (snd (main_seed short_name_world fresh))) \<and>
   Err ''Error: Invalid bucket name format'' \<notin> set (trace (snd (main_seed short_name_world fresh)))"
  by (simp add: short_name_world_def quiet_world_def fresh_def seed_defs prog_defs bucket_pattern_def
      lower_or_digit_def)

text \<open>
  A malformed name of more than three characters is rejected as the message says:
  the seed run prints the two lines of the format error and exits with code 1,
  before any access to the bucket.
\<close>

theorem long_malformed_bucket_name_is_rejected:
  assumes "argv w = b # rest" and "\<not> bucket_pattern b" and "3 < length b"
  shows "fst (main_seed w s) = Exit 1 \<and>
         trace (snd (main_seed w s)) = trace s @
           [Err ''Error: Invalid bucket name format'',
            Err ''Bucket names must be 3-63 characters long and contain only lowercase letters, numbers, and hyphens'']"
proof -
  obtain outputs where outputs: "readOutputs w s = (Return outputs, s)"
    using readOutputs_returns by blast
  from assms(3) have "b \<noteq> []" by auto
  with assms show ?thesis
    by (simp add: main_seed_def main_seed_body_def outputs or_else_def str_val_def Let_def prog_defs)
qed

theorem long_malformed_bucket_name_is_rejected_witness:
  "fst (main_seed long_name_world fresh) = Exit 1 \<and>
   trace (snd (main_seed long_name_world fresh)) =
     [Err ''Error: Invalid bucket name format'',
      Err ''Bucket names must be 3-63 characters long and contain only lowercase letters, numbers, and hyphens'']"
proof -
  have a: "argv long_name_world = ''My_Bucket'' # []"
    and b: "\<not> bucket_pattern ''My_Bucket''" and c: "3 < length ''My_Bucket''"
    by (simp_all add: long_name_world_def short_name_world_def quiet_world_def bucket_pattern_def
        lower_or_digit_def)
  from long_malformed_bucket_name_is_rejected [OF a b c, of fresh]
  show ?thesis by (simp add: fresh_def)
qed

end
